theory Spec2Isabelle
  imports Complex_Main "HOL-Library.AList" "HOL-Library.Sublist" "HOL-Library.State_Monad"
begin

section \<open>Python values and the operations the notebooks apply to them\<close>

text \<open>
  The rows of a Hugging Face dataset reach the notebooks' functions as Python dictionaries
  from column names to values. A value is \<open>None\<close>, a bool, an int, a float, a str, a list
  or a dict. Floats are only ever compared, never computed with, so a float is the
  rational number it denotes, an infinity or NaN. A str is its sequence of bytes.
\<close>

datatype pyfloat = Finite rat | PosInf | NegInf | NaN

datatype pyval =
    PNone
  | PBool bool
  | PInt int
  | PFloat pyfloat
  | PStr string
  | PList "pyval list"
  | PDict "(string \<times> pyval) list"

type_synonym row = "(string \<times> pyval) list"

text \<open>
  An exception: a \<open>KeyError\<close> with its key, a \<open>TypeError\<close>, or any other exception, named
  by its class.
\<close>

datatype error = KeyError string | TypeError | Raised string

text \<open>\<open>d[k]\<close> on a dictionary: the value stored at \<open>k\<close>, or \<open>KeyError\<close>.\<close>

definition getitem :: "row \<Rightarrow> string \<Rightarrow> error + pyval" where
  "getitem d k = (case map_of d k of None \<Rightarrow> Inl (KeyError k) | Some v \<Rightarrow> Inr v)"

text \<open>
  \<open>a + b\<close> where the source has a str on one side (a literal, or the result of an earlier
  concatenation): the concatenation when the other side is a str too, and \<open>TypeError\<close>
  for every other built-in value.
\<close>

fun add_str :: "pyval \<Rightarrow> pyval \<Rightarrow> error + pyval" where
  "add_str (PStr a) (PStr b) = Inr (PStr (a @ b))"
| "add_str _ _ = Inl TypeError"

text \<open>\<open>v != "lit"\<close>: no built-in value other than the same str equals a str; never raises.\<close>

definition ne_str :: "pyval \<Rightarrow> string \<Rightarrow> bool" where
  "ne_str v lit = (v \<noteq> PStr lit)"

text \<open>
  \<open>v >= n\<close> for an int literal \<open>n\<close>: numbers compare by value (a bool is the int 0 or 1,
  NaN compares false with everything), anything else raises \<open>TypeError\<close>.
\<close>

fun float_ge_int :: "pyfloat \<Rightarrow> int \<Rightarrow> bool" where
  "float_ge_int (Finite q) n = (of_int n \<le> q)"
| "float_ge_int PosInf n = True"
| "float_ge_int NegInf n = False"
| "float_ge_int NaN n = False"

fun ge_int :: "pyval \<Rightarrow> int \<Rightarrow> error + bool" where
  "ge_int (PBool b) n = Inr (n \<le> (if b then 1 else 0))"
| "ge_int (PInt i) n = Inr (n \<le> i)"
| "ge_int (PFloat f) n = Inr (float_ge_int f n)"
| "ge_int _ n = Inl TypeError"

text \<open>Truth value of a built-in value, as \<open>not\<close>, \<open>and\<close> and the library's filter read it.\<close>

fun truthy :: "pyval \<Rightarrow> bool" where
  "truthy PNone = False"
| "truthy (PBool b) = b"
| "truthy (PInt i) = (i \<noteq> 0)"
| "truthy (PFloat (Finite q)) = (q \<noteq> 0)"
| "truthy (PFloat _) = True"
| "truthy (PStr s) = (s \<noteq> [])"
| "truthy (PList xs) = (xs \<noteq> [])"
| "truthy (PDict d) = (d \<noteq> [])"

section \<open>The DPO notebook's own functions\<close>

text \<open>
  \<^verbatim>\<open>
  def format_prompt(example):
      system = "<|system|>\n" + example["system"] + "</s>\n"
      prompt = "<|user|>\n" + example["input"] + " </s>\n<|assistant|>\n"
      chosen = example["chosen"] + "</s>\n"
      rejected = example["rejected"] + "</s>\n"
      return {"prompt": system + prompt, "chosen": chosen, "rejected": rejected}
  \<close>
  Each line evaluates left to right: the lookup, then the concatenations.
\<close>

definition format_prompt :: "row \<Rightarrow> error + row" where
  "format_prompt example =
    (case getitem example ''system'' of Inl e \<Rightarrow> Inl e | Inr v1 \<Rightarrow>
    (case add_str (PStr ''<|system|>\<newline>'') v1 of Inl e \<Rightarrow> Inl e | Inr t1 \<Rightarrow>
    (case add_str t1 (PStr ''</s>\<newline>'') of Inl e \<Rightarrow> Inl e | Inr system \<Rightarrow>
    (case getitem example ''input'' of Inl e \<Rightarrow> Inl e | Inr v2 \<Rightarrow>
    (case add_str (PStr ''<|user|>\<newline>'') v2 of Inl e \<Rightarrow> Inl e | Inr t2 \<Rightarrow>
    (case add_str t2 (PStr '' </s>\<newline><|assistant|>\<newline>'') of Inl e \<Rightarrow> Inl e | Inr prompt \<Rightarrow>
    (case getitem example ''chosen'' of Inl e \<Rightarrow> Inl e | Inr v3 \<Rightarrow>
    (case add_str v3 (PStr ''</s>\<newline>'') of Inl e \<Rightarrow> Inl e | Inr chosen \<Rightarrow>
    (case getitem example ''rejected'' of Inl e \<Rightarrow> Inl e | Inr v4 \<Rightarrow>
    (case add_str v4 (PStr ''</s>\<newline>'') of Inl e \<Rightarrow> Inl e | Inr rejected \<Rightarrow>
    (case add_str system prompt of Inl e \<Rightarrow> Inl e | Inr sp \<Rightarrow>
     Inr [(''prompt'', sp), (''chosen'', chosen), (''rejected'', rejected)])))))))))))"

text \<open>
  \<^verbatim>\<open>
  lambda r: r["status"] != "tie" and r["chosen_score"] >= 8 and not r["in_gsm8k_train"]
  \<close>
  \<open>and\<close> returns its left operand when that is false and does not evaluate the right one.
\<close>

definition keep_pair :: "row \<Rightarrow> error + pyval" where
  "keep_pair r =
    (case getitem r ''status'' of Inl e \<Rightarrow> Inl e | Inr s \<Rightarrow>
     if \<not> ne_str s ''tie'' then Inr (PBool False) else
    (case getitem r ''chosen_score'' of Inl e \<Rightarrow> Inl e | Inr c \<Rightarrow>
    (case ge_int c 8 of Inl e \<Rightarrow> Inl e | Inr b \<Rightarrow>
     if \<not> b then Inr (PBool False) else
    (case getitem r ''in_gsm8k_train'' of Inl e \<Rightarrow> Inl e | Inr g \<Rightarrow>
     Inr (PBool (\<not> truthy g))))))"

section \<open>The instruction-tuning notebook's own function\<close>

text \<open>
  \<^verbatim>\<open>
  def format_prompt(example):
      chat = example["messages"]
      prompt = template_tokenizer.apply_chat_template(chat, tokenize=False)
      return {"text": prompt}
  \<close>
  \<open>template_tokenizer\<close> is a global loaded from the model hub, and \<open>apply_chat_template\<close>
  is code of the tokenizer library, so the call is a parameter: it returns a value or raises.
  The second notebook's function has the same name as the first one's, hence the suffix.
\<close>

definition format_prompt_chat :: "(pyval \<Rightarrow> error + pyval) \<Rightarrow> row \<Rightarrow> error + row" where
  "format_prompt_chat apply_chat_template example =
    (case getitem example ''messages'' of Inl e \<Rightarrow> Inl e | Inr chat \<Rightarrow>
    (case apply_chat_template chat of Inl e \<Rightarrow> Inl e | Inr prompt \<Rightarrow>
     Inr [(''text'', prompt)]))"

subsection \<open>The chat template that the notebook loads\<close>

text \<open>
  Modelled from the notebook's recorded output: the chat template of
  \<open>TinyLlama/TinyLlama-1.1B-Chat-v1.0\<close> is data of the tokenizer that the notebook downloads,
  and no file of the repository holds it. The notebook records what it renders. The
  formatted example that it prints after the map reads
  \<^verbatim>\<open><|user|>\n ... </s>\n<|assistant|>\n ... </s>\n<|user|>\n ... </s>\n<|assistant|>\n ... </s>\n\<close>,
  its last cell writes a prompt by hand "using our predefined prompt template" as
  \<^verbatim>\<open><|user|>\n ... </s>\n<|assistant|>\n\<close>, and the DPO notebook writes the system turn of
  "the template TinyLLama is using" as \<^verbatim>\<open><|system|>\n ... </s>\n\<close>. So the template
  renders a conversation message after message: for a user, system or assistant message the
  tag of the role and a newline, the content, the end-of-sequence token \<open></s>\<close> and a
  newline; the template has no branch for any other role, so such a message renders as
  nothing. The template concatenates with \<open>+\<close>, which raises \<open>TypeError\<close> on a content that
  is not a str; a message without a content is an undefined operand of the template.
\<close>

definition role_tag :: "string \<Rightarrow> string option" where
  "role_tag role =
    (if role = ''user'' then Some ''<|user|>\<newline>''
     else if role = ''system'' then Some ''<|system|>\<newline>''
     else if role = ''assistant'' then Some ''<|assistant|>\<newline>''
     else None)"

fun render_message :: "pyval \<Rightarrow> error + string" where
  "render_message (PDict message) =
    (case map_of message ''role'' of
       Some (PStr role) \<Rightarrow>
         (case role_tag role of
            None \<Rightarrow> Inr []
          | Some tag \<Rightarrow>
             (case map_of message ''content'' of
                None \<Rightarrow> Inl (Raised ''UndefinedError'')
              | Some (PStr content) \<Rightarrow> Inr (tag @ content @ ''</s>'' @ ''\<newline>'')
              | Some _ \<Rightarrow> Inl TypeError))
     | _ \<Rightarrow> Inr [])"
| "render_message _ = Inr []"

fun render_messages :: "pyval list \<Rightarrow> error + string" where
  "render_messages [] = Inr []"
| "render_messages (message # messages) =
    (case render_message message of Inl e \<Rightarrow> Inl e | Inr turn \<Rightarrow>
    (case render_messages messages of Inl e \<Rightarrow> Inl e | Inr rest \<Rightarrow> Inr (turn @ rest)))"

text \<open>
  \<open>apply_chat_template(chat, tokenize=False)\<close> looks at \<open>chat[0]\<close> to tell a batch of
  conversations from one conversation, so an empty list raises \<open>IndexError\<close>; a list whose
  first element is a list is a batch, rendered conversation by conversation into a list of
  strs. The template's loop over a str or a dict finds no message to render, and a loop
  over \<open>None\<close> or a number raises \<open>TypeError\<close>.
\<close>

fun render_chat :: "pyval \<Rightarrow> error + string" where
  "render_chat (PList messages) = render_messages messages"
| "render_chat (PStr s) = Inr []"
| "render_chat (PDict d) = Inr []"
| "render_chat _ = Inl TypeError"

fun render_batch :: "pyval list \<Rightarrow> error + pyval list" where
  "render_batch [] = Inr []"
| "render_batch (chat # chats) =
    (case render_chat chat of Inl e \<Rightarrow> Inl e | Inr text \<Rightarrow>
    (case render_batch chats of Inl e \<Rightarrow> Inl e | Inr rest \<Rightarrow> Inr (PStr text # rest)))"

fun chat_template :: "pyval \<Rightarrow> error + pyval" where
  "chat_template (PList []) = Inl (Raised ''IndexError'')"
| "chat_template (PList (PList first # chats)) =
    (case render_batch (PList first # chats) of Inl e \<Rightarrow> Inl e | Inr texts \<Rightarrow> Inr (PList texts))"
| "chat_template chat =
    (case render_chat chat of Inl e \<Rightarrow> Inl e | Inr text \<Rightarrow> Inr (PStr text))"

section \<open>The dataset library's filter and map\<close>

text \<open>
  A dataset is a table: its column names and its rows, each row a dictionary with the
  table's columns as keys.
\<close>

record dataset =
  column_names :: "string list"
  rows :: "row list"

definition table :: "dataset \<Rightarrow> bool" where
  "table d = (\<forall>r \<in> set (rows d). map fst r = column_names d \<and> distinct (map fst r))"

text \<open>
  \<open>Dataset.filter(function)\<close> calls the function on every row in order and keeps the rows
  for which the result is true; an exception of the function ends the call.
\<close>

fun filter_rows :: "(row \<Rightarrow> error + pyval) \<Rightarrow> row list \<Rightarrow> error + row list" where
  "filter_rows f [] = Inr []"
| "filter_rows f (r # rs) =
    (case f r of Inl e \<Rightarrow> Inl e | Inr keep \<Rightarrow>
    (case filter_rows f rs of Inl e \<Rightarrow> Inl e | Inr out \<Rightarrow>
     Inr (if truthy keep then r # out else out)))"

definition dataset_filter :: "(row \<Rightarrow> error + pyval) \<Rightarrow> dataset \<Rightarrow> error + dataset" where
  "dataset_filter f d =
    (case filter_rows f (rows d) of Inl e \<Rightarrow> Inl e | Inr out \<Rightarrow> Inr (d\<lparr>rows := out\<rparr>))"

text \<open>
  \<open>Dataset.map(function, remove_columns=cols)\<close> calls the function on every row in order,
  drops the columns \<open>cols\<close> from the input row and updates what is left with the
  dictionary returned, as \<open>{**inputs, **processed}\<close> does: a key already there keeps its
  place and takes the new value, a new key goes to the end.
\<close>

definition pop_columns :: "string list \<Rightarrow> row \<Rightarrow> row" where
  "pop_columns cols r = filter (\<lambda>(k, v). k \<notin> set cols) r"

definition dict_merge :: "row \<Rightarrow> row \<Rightarrow> row" where
  "dict_merge inputs processed = fold (\<lambda>(k, v). AList.update k v) processed inputs"

fun map_rows :: "(row \<Rightarrow> error + row) \<Rightarrow> string list \<Rightarrow> row list \<Rightarrow> error + row list" where
  "map_rows f cols [] = Inr []"
| "map_rows f cols (r # rs) =
    (case f r of Inl e \<Rightarrow> Inl e | Inr processed \<Rightarrow>
    (case map_rows f cols rs of Inl e \<Rightarrow> Inl e | Inr out \<Rightarrow>
     Inr (dict_merge (pop_columns cols r) processed # out)))"

text \<open>
  The rows are then written as a table. Its columns are those of the first row written,
  the ones of the old schema first and in its order (the DPO notebook's first cell prints
  \<open>['chosen', 'rejected', 'prompt']\<close>); of an empty dataset, the columns left after the
  removal. Every row is stored, and comes back, in the order of the columns; a key that is
  no column is dropped, and a row that lacks a column fails the write with a lookup error.
\<close>

definition mapped_columns :: "string list \<Rightarrow> string list \<Rightarrow> row list \<Rightarrow> string list" where
  "mapped_columns old cols out =
    (case out of
       [] \<Rightarrow> filter (\<lambda>c. c \<notin> set cols) old
     | r # _ \<Rightarrow> filter (\<lambda>c. c \<in> set (map fst r)) old @ filter (\<lambda>k. k \<notin> set old) (map fst r))"

fun arrange :: "string list \<Rightarrow> row \<Rightarrow> error + row" where
  "arrange [] r = Inr []"
| "arrange (c # cs) r =
    (case getitem r c of Inl e \<Rightarrow> Inl e | Inr v \<Rightarrow>
    (case arrange cs r of Inl e \<Rightarrow> Inl e | Inr rest \<Rightarrow> Inr ((c, v) # rest)))"

fun write_rows :: "string list \<Rightarrow> row list \<Rightarrow> error + row list" where
  "write_rows cols [] = Inr []"
| "write_rows cols (r # rs) =
    (case arrange cols r of Inl e \<Rightarrow> Inl e | Inr written \<Rightarrow>
    (case write_rows cols rs of Inl e \<Rightarrow> Inl e | Inr rest \<Rightarrow> Inr (written # rest)))"

definition dataset_map :: "(row \<Rightarrow> error + row) \<Rightarrow> string list \<Rightarrow> dataset \<Rightarrow> error + dataset" where
  "dataset_map f cols d =
    (case map_rows f cols (rows d) of Inl e \<Rightarrow> Inl e | Inr out \<Rightarrow>
    (case write_rows (mapped_columns (column_names d) cols out) out of Inl e \<Rightarrow> Inl e | Inr written \<Rightarrow>
     Inr \<lparr>column_names = mapped_columns (column_names d) cols out, rows = written\<rparr>))"

section \<open>The notebooks as sequences of library calls\<close>

text \<open>
  Apart from the functions above, a notebook is a straight line of calls into the
  libraries, attribute assignments and shell commands, cell after cell. What a library
  call computes is not the repository's concern: it is logged, and its result is an opaque
  object named by the position of the call in the log. The one exception is the preference
  dataset of the DPO notebook, whose rows the notebook's own functions transform: there the
  table itself is the value. A float literal of a call is written as the decimal fraction
  of the source text. Library calls are taken to return; an exception of one of the
  notebook's own functions ends the run, and nothing after it is logged.
\<close>

datatype nbval =
    Lit pyval
  | Obj nat
  | Attr nbval string
  | Item nbval nbval
  | FuncRef string
  | Table dataset

record call =
  callee :: string
  self :: "nbval option"
  args :: "nbval list"
  kwargs :: "(string \<times> nbval) list"

datatype event = Shell string | Call call | SetAttr nbval string nbval

record nb =
  trace :: "event list"
  raised :: "error option"

definition emit :: "event \<Rightarrow> (nb, unit) state" where
  "emit e = State (\<lambda>s. if raised s = None then ((), s\<lparr>trace := trace s @ [e]\<rparr>) else ((), s))"

definition shell :: "string \<Rightarrow> (nb, unit) state" where
  "shell cmd = emit (Shell cmd)"

definition setattr :: "nbval \<Rightarrow> string \<Rightarrow> nbval \<Rightarrow> (nb, unit) state" where
  "setattr obj name v = emit (SetAttr obj name v)"

definition lib_call :: "string \<Rightarrow> nbval option \<Rightarrow> nbval list \<Rightarrow> (string \<times> nbval) list \<Rightarrow> (nb, nbval) state" where
  "lib_call f recv as kws =
     State (\<lambda>s. if raised s = None
                 then (Obj (length (trace s)),
                       s\<lparr>trace := trace s @ [Call \<lparr>callee = f, self = recv, args = as, kwargs = kws\<rparr>]\<rparr>)
                 else (Lit PNone, s))"

definition raise :: "error \<Rightarrow> (nb, unit) state" where
  "raise e = State (\<lambda>s. if raised s = None then ((), s\<lparr>raised := Some e\<rparr>) else ((), s))"

text \<open>\<open>load_dataset(name, **kws)\<close>: the table the hub holds under that name.\<close>

definition load_dataset :: "dataset \<Rightarrow> string \<Rightarrow> (string \<times> nbval) list \<Rightarrow> (nb, dataset) state" where
  "load_dataset hub name kws = do {
     emit (Call \<lparr>callee = ''load_dataset'', self = None, args = [Lit (PStr name)], kwargs = kws\<rparr>);
     State_Monad.return hub
   }"

text \<open>\<open>d.filter(f)\<close> and \<open>d.map(f, remove_columns=cols)\<close> with a function of the notebook.\<close>

definition filter_method :: "dataset \<Rightarrow> string \<times> (row \<Rightarrow> error + pyval) \<Rightarrow> (nb, dataset) state" where
  "filter_method d f = do {
     emit (Call \<lparr>callee = ''filter'', self = Some (Table d), args = [FuncRef (fst f)], kwargs = []\<rparr>);
     (case dataset_filter (snd f) d of
        Inl e \<Rightarrow> do { raise e; State_Monad.return d }
      | Inr out \<Rightarrow> State_Monad.return out)
   }"

definition map_method :: "dataset \<Rightarrow> string \<times> (row \<Rightarrow> error + row) \<Rightarrow> string list \<Rightarrow> (nb, dataset) state" where
  "map_method d f cols = do {
     emit (Call \<lparr>callee = ''map'', self = Some (Table d), args = [FuncRef (fst f)],
                 kwargs = [(''remove_columns'', Lit (PList (map PStr cols)))]\<rparr>);
     (case dataset_map (snd f) cols d of
        Inl e \<Rightarrow> do { raise e; State_Monad.return d }
      | Inr out \<Rightarrow> State_Monad.return out)
   }"

definition run :: "(nb, 'a) state \<Rightarrow> nb" where
  "run m = snd (run_state m \<lparr>trace = [], raised = None\<rparr>)"

subsection \<open>The instruction-tuning notebook\<close>

definition instruction_tuning_notebook :: "(nb, unit) state" where
  "instruction_tuning_notebook = do {
     shell ''pip install torch torchvision torchaudio'';
     template_tokenizer \<leftarrow> lib_call ''AutoTokenizer.from_pretrained'' None
       [Lit (PStr ''TinyLlama/TinyLlama-1.1B-Chat-v1.0'')] [];
     dataset \<leftarrow> lib_call ''load_dataset'' None
       [Lit (PStr ''HuggingFaceH4/ultrachat_200k'')] [(''split'', Lit (PStr ''test_sft''))];
     dataset \<leftarrow> lib_call ''shuffle'' (Some dataset) [] [(''seed'', Lit (PInt 42))];
     indices \<leftarrow> lib_call ''range'' None [Lit (PInt 3000)] [];
     dataset \<leftarrow> lib_call ''select'' (Some dataset) [indices] [];
     dataset \<leftarrow> lib_call ''map'' (Some dataset) [FuncRef ''format_prompt''] [];
     lib_call ''print'' None [Item (Item dataset (Lit (PStr ''text''))) (Lit (PInt 2576))] [];
     let model_name = Lit (PStr ''TinyLlama/TinyLlama-1.1B-intermediate-step-1431k-3T'');
     bnb_config \<leftarrow> lib_call ''BitsAndBytesConfig'' None []
       [(''load_in_4bit'', Lit (PBool True)),
        (''bnb_4bit_quant_type'', Lit (PStr ''nf4'')),
        (''bnb_4bit_compute_dtype'', Lit (PStr ''float16'')),
        (''bnb_4bit_use_double_quant'', Lit (PBool True))];
     model \<leftarrow> lib_call ''AutoModelForCausalLM.from_pretrained'' None [model_name]
       [(''device_map'', Lit (PStr ''auto'')), (''quantization_config'', bnb_config)];
     setattr (Attr model ''config'') ''use_cache'' (Lit (PBool False));
     setattr (Attr model ''config'') ''pretraining_tp'' (Lit (PInt 1));
     tokenizer \<leftarrow> lib_call ''AutoTokenizer.from_pretrained'' None [model_name]
       [(''trust_remote_code'', Lit (PBool True))];
     setattr tokenizer ''pad_token'' (Lit (PStr ''<PAD>''));
     setattr tokenizer ''padding_side'' (Lit (PStr ''left''));
     peft_config \<leftarrow> lib_call ''LoraConfig'' None []
       [(''lora_alpha'', Lit (PInt 32)),
        (''lora_dropout'', Lit (PFloat (Finite (1 / 10)))),
        (''r'', Lit (PInt 64)),
        (''bias'', Lit (PStr ''none'')),
        (''task_type'', Lit (PStr ''CAUSAL_LM'')),
        (''target_modules'', Lit (PList [PStr ''k_proj'', PStr ''gate_proj'', PStr ''v_proj'',
            PStr ''up_proj'', PStr ''q_proj'', PStr ''o_proj'', PStr ''down_proj'']))];
     model \<leftarrow> lib_call ''prepare_model_for_kbit_training'' None [model] [];
     model \<leftarrow> lib_call ''get_peft_model'' None [model, peft_config] [];
     let OUTPUT_DIR = Lit (PStr ''./results'');
     training_arguments \<leftarrow> lib_call ''TrainingArguments'' None []
       [(''output_dir'', OUTPUT_DIR),
        (''per_device_train_batch_size'', Lit (PInt 2)),
        (''gradient_accumulation_steps'', Lit (PInt 4)),
        (''optim'', Lit (PStr ''paged_adamw_32bit'')),
        (''learning_rate'', Lit (PFloat (Finite (2 / 10000)))),
        (''lr_scheduler_type'', Lit (PStr ''cosine'')),
        (''num_train_epochs'', Lit (PInt 1)),
        (''logging_steps'', Lit (PInt 10)),
        (''fp16'', Lit (PBool True)),
        (''gradient_checkpointing'', Lit (PBool True))];
     trainer \<leftarrow> lib_call ''SFTTrainer'' None []
       [(''model'', model),
        (''train_dataset'', dataset),
        (''dataset_text_field'', Lit (PStr ''text'')),
        (''tokenizer'', tokenizer),
        (''args'', training_arguments),
        (''max_seq_length'', Lit (PInt 512)),
        (''peft_config'', peft_config)];
     lib_call ''train'' (Some trainer) [] [];
     let QLORA_MODEL = Lit (PStr ''TinyLlama-1.1B-qlora'');
     lib_call ''save_pretrained'' (Some (Attr trainer ''model'')) [QLORA_MODEL] [];
     model \<leftarrow> lib_call ''AutoPeftModelForCausalLM.from_pretrained'' None
       [Lit (PStr ''TinyLlama-1.1B-qlora'')]
       [(''low_cpu_mem_usage'', Lit (PBool True)), (''device_map'', Lit (PStr ''auto''))];
     merged_model \<leftarrow> lib_call ''merge_and_unload'' (Some model) [] [];
     let prompt = Lit (PStr ''<|user|>\<newline>Tell me something about Large Language Models.</s>\<newline><|assistant|>\<newline>'');
     pipe \<leftarrow> lib_call ''pipeline'' None []
       [(''task'', Lit (PStr ''text-generation'')), (''model'', merged_model), (''tokenizer'', tokenizer)];
     generated \<leftarrow> lib_call ''__call__'' (Some pipe) [prompt] [];
     lib_call ''print'' None [Item (Item generated (Lit (PInt 0))) (Lit (PStr ''generated_text''))] [];
     State_Monad.return ()
   }"

subsection \<open>The DPO notebook\<close>

text \<open>
  \<open>hub\<close> is the table that \<open>load_dataset\<close> returns. The cell after the merge is a
  string literal (the code in it is quoted out), so it calls nothing.
\<close>

definition dpo_notebook :: "dataset \<Rightarrow> (nb, unit) state" where
  "dpo_notebook hub = do {
     shell ''conda install -c conda-forge pytorch=2.2.0 torchvision=0.17.0 torchtext=0.17.2 cpuonly numpy pandas matplotlib scikit-learn tqdm -y'';
     shell ''pip install datasets==2.20.0 trl==0.9.6 transformers==4.42.3 peft==0.11.1 sacrebleu==2.4.2 evaluate==0.4.2'';
     dpo_dataset \<leftarrow> load_dataset hub ''argilla/distilabel-intel-orca-dpo-pairs''
       [(''split'', Lit (PStr ''train''))];
     dpo_dataset \<leftarrow> filter_method dpo_dataset (''lambda'', keep_pair);
     dpo_dataset \<leftarrow> map_method dpo_dataset (''format_prompt'', format_prompt) (column_names dpo_dataset);
     bnb_config \<leftarrow> lib_call ''BitsAndBytesConfig'' None []
       [(''load_in_4bit'', Lit (PBool True)),
        (''bnb_4bit_quant_type'', Lit (PStr ''nf4'')),
        (''bnb_4bit_compute_dtype'', Lit (PStr ''float16'')),
        (''bnb_4bit_use_double_quant'', Lit (PBool True))];
     let model_name = Lit (PStr ''TinyLlama/TinyLlama-1.1B-Chat-v1.0'');
     tokenizer \<leftarrow> lib_call ''AutoTokenizer.from_pretrained'' None [model_name]
       [(''trust_remote_code'', Lit (PBool True))];
     setattr tokenizer ''pad_token'' (Lit (PStr ''<PAD>''));
     setattr tokenizer ''padding_side'' (Lit (PStr ''left''));
     model \<leftarrow> lib_call ''AutoModelForCausalLM.from_pretrained'' None [model_name]
       [(''device_map'', Lit (PStr ''auto'')),
        (''quantization_config'', bnb_config),
        (''trust_remote_code'', Lit (PBool True))];
     setattr (Attr model ''config'') ''use_cache'' (Lit (PBool False));
     setattr (Attr model ''config'') ''pretraining_tp'' (Lit (PInt 1));
     peft_config \<leftarrow> lib_call ''LoraConfig'' None []
       [(''lora_alpha'', Lit (PInt 32)),
        (''lora_dropout'', Lit (PFloat (Finite (5 / 100)))),
        (''r'', Lit (PInt 64)),
        (''bias'', Lit (PStr ''none'')),
        (''task_type'', Lit (PStr ''CAUSAL_LM'')),
        (''target_modules'', Lit (PList [PStr ''k_proj'', PStr ''gate_proj'', PStr ''v_proj'',
            PStr ''up_proj'', PStr ''q_proj'', PStr ''o_proj'', PStr ''down_proj'']))];
     model \<leftarrow> lib_call ''prepare_model_for_kbit_training'' None [model] [];
     model \<leftarrow> lib_call ''get_peft_model'' None [model, peft_config] [];
     let output_dir = Lit (PStr ''./dpo-tinyllama'');
     training_arguments \<leftarrow> lib_call ''DPOConfig'' None []
       [(''output_dir'', output_dir),
        (''per_device_train_batch_size'', Lit (PInt 2)),
        (''gradient_accumulation_steps'', Lit (PInt 4)),
        (''optim'', Lit (PStr ''paged_adamw_32bit'')),
        (''learning_rate'', Lit (PFloat (Finite (1 / 100000)))),
        (''lr_scheduler_type'', Lit (PStr ''cosine'')),
        (''max_steps'', Lit (PInt 200)),
        (''logging_steps'', Lit (PInt 10)),
        (''fp16'', Lit (PBool True)),
        (''gradient_checkpointing'', Lit (PBool True)),
        (''warmup_ratio'', Lit (PFloat (Finite (1 / 10)))),
        (''beta'', Lit (PFloat (Finite (1 / 10)))),
        (''label_smoothing'', Lit (PFloat (Finite 0))),
        (''loss_type'', Lit (PStr ''sigmoid''))];
     dpo_trainer \<leftarrow> lib_call ''DPOTrainer'' None [model]
       [(''ref_model'', Lit PNone),
        (''args'', training_arguments),
        (''train_dataset'', Table dpo_dataset),
        (''tokenizer'', tokenizer),
        (''peft_config'', peft_config),
        (''beta'', Lit (PFloat (Finite (1 / 10)))),
        (''max_prompt_length'', Lit (PInt 512)),
        (''max_length'', Lit (PInt 512))];
     lib_call ''train'' (Some dpo_trainer) [] [];
     log \<leftarrow> lib_call ''pd.DataFrame'' None [Attr (Attr dpo_trainer ''state'') ''log_history''] [];
     mask_t \<leftarrow> lib_call ''notna'' (Some (Item log (Lit (PStr ''loss'')))) [] [];
     let log_t = Item log mask_t;
     mask_e \<leftarrow> lib_call ''notna'' (Some (Item log (Lit (PStr ''eval_loss'')))) [] [];
     let log_e = Item log mask_e;
     lib_call ''plt.plot'' None [Item log_t (Lit (PStr ''epoch'')), Item log_t (Lit (PStr ''loss''))]
       [(''label'', Lit (PStr ''Train''))];
     lib_call ''plt.plot'' None [Item log_e (Lit (PStr ''epoch'')), Item log_e (Lit (PStr ''eval_loss''))]
       [(''label'', Lit (PStr ''Eval''))];
     lib_call ''plt.title'' None [Lit (PStr ''Model Losses'')] [];
     lib_call ''plt.legend'' None [] [];
     lib_call ''plt.show'' None [] [];
     lib_call ''save_model'' (Some dpo_trainer) [output_dir] [];
     merged_model \<leftarrow> lib_call ''merge_and_unload'' (Some model) [] [];
     let merged_dir = Lit (PStr ''./dpo-tinyllama-merged'');
     lib_call ''save_pretrained'' (Some merged_model) [merged_dir] [];
     lib_call ''save_pretrained'' (Some tokenizer) [merged_dir] [];
     let model_dir = Lit (PStr ''./dpo-tinyllama-merged'');
     finetuned_model \<leftarrow> lib_call ''AutoModelForCausalLM.from_pretrained'' None [model_dir]
       [(''device_map'', Lit (PStr ''auto'')), (''trust_remote_code'', Lit (PBool True))];
     finetuned_tokenizer \<leftarrow> lib_call ''AutoTokenizer.from_pretrained'' None [model_dir]
       [(''trust_remote_code'', Lit (PBool True))];
     pipe \<leftarrow> lib_call ''pipeline'' None [Lit (PStr ''text-generation'')]
       [(''model'', finetuned_model),
        (''tokenizer'', finetuned_tokenizer),
        (''max_new_tokens'', Lit (PInt 256)),
        (''temperature'', Lit (PFloat (Finite (7 / 10)))),
        (''do_sample'', Lit (PBool True))];
     let prompt = Lit (PStr ''Explain quantum computing in simple terms.'');
     generated \<leftarrow> lib_call ''__call__'' (Some pipe) [prompt] [];
     lib_call ''print'' None [Item (Item generated (Lit (PInt 0))) (Lit (PStr ''generated_text''))] [];
     State_Monad.return ()
   }"

section \<open>What the claims speak of\<close>

text \<open>
  The schema of the preference dataset: \<open>status\<close> is a str, \<open>chosen_score\<close> a number
  (a pair that is a tie may have no score), \<open>in_gsm8k_train\<close> a bool, and the four text
  columns are strs.
\<close>

fun is_str :: "pyval option \<Rightarrow> bool" where
  "is_str (Some (PStr s)) = True"
| "is_str _ = False"

fun is_number :: "pyval option \<Rightarrow> bool" where
  "is_number (Some (PInt i)) = True"
| "is_number (Some (PFloat f)) = True"
| "is_number _ = False"

fun is_bool :: "pyval option \<Rightarrow> bool" where
  "is_bool (Some (PBool b)) = True"
| "is_bool _ = False"

definition rated :: "row \<Rightarrow> bool" where
  "rated r = (is_str (map_of r ''status'')
              \<and> (map_of r ''status'' = Some (PStr ''tie'') \<or> is_number (map_of r ''chosen_score''))
              \<and> is_bool (map_of r ''in_gsm8k_train''))"

definition has_texts :: "row \<Rightarrow> bool" where
  "has_texts r = (is_str (map_of r ''system'') \<and> is_str (map_of r ''input'')
                  \<and> is_str (map_of r ''chosen'') \<and> is_str (map_of r ''rejected''))"

text \<open>
  The retention condition in the specification's words: the status is not \<open>tie\<close>, the
  chosen score is at least 8, and the row is not in the GSM8K training set.
\<close>

fun at_least :: "pyval option \<Rightarrow> int \<Rightarrow> bool" where
  "at_least (Some (PInt i)) n = (n \<le> i)"
| "at_least (Some (PFloat (Finite q))) n = (of_int n \<le> q)"
| "at_least (Some (PFloat PosInf)) n = True"
| "at_least _ n = False"

definition retained :: "row \<Rightarrow> bool" where
  "retained r = (map_of r ''status'' \<noteq> Some (PStr ''tie'') \<and> at_least (map_of r ''chosen_score'') 8
                 \<and> map_of r ''in_gsm8k_train'' = Some (PBool False))"

text \<open>
  A table of preference pairs as the hub serves it: every row has the table's columns, and
  the columns the notebook reads have the types of the schema.
\<close>

definition preference_pairs :: "dataset \<Rightarrow> bool" where
  "preference_pairs d = (table d \<and> list_all (\<lambda>r. rated r \<and> has_texts r) (rows d))"

text \<open>
  A small table of that shape, on which the theorems below are instantiated: the first
  pair is kept by the filter, the second is a tie without a score, the third is rated
  below 8.
\<close>

definition sample_pairs :: dataset where
  "sample_pairs =
    \<lparr>column_names = [''system'', ''input'', ''chosen'', ''rejected'', ''status'', ''chosen_score'', ''in_gsm8k_train''],
     rows =
       [[(''system'', PStr ''''), (''input'', PStr ''2+2?''), (''chosen'', PStr ''4''), (''rejected'', PStr ''5''),
         (''status'', PStr ''changed''), (''chosen_score'', PFloat (Finite 9)), (''in_gsm8k_train'', PBool False)],
        [(''system'', PStr ''Be brief.''), (''input'', PStr ''Hi''), (''chosen'', PStr ''Hello''), (''rejected'', PStr ''Hello!''),
         (''status'', PStr ''tie''), (''chosen_score'', PNone), (''in_gsm8k_train'', PBool False)],
        [(''system'', PStr ''''), (''input'', PStr ''Name a prime.''), (''chosen'', PStr ''9''), (''rejected'', PStr ''7''),
         (''status'', PStr ''unchanged''), (''chosen_score'', PFloat (Finite 3)), (''in_gsm8k_train'', PBool False)]]\<rparr>"

text \<open>
  Two dictionaries are the same dictionary when they have the same keys and the same value
  at every key, in whatever order the keys come. A row of the mapped table is the
  formatting of a source row when it is the dictionary that \<open>format_prompt\<close> returns for it.
\<close>

definition same_dict :: "row \<Rightarrow> row \<Rightarrow> bool" where
  "same_dict a b = (set (map fst a) = set (map fst b)
                    \<and> list_all (\<lambda>k. map_of a k = map_of b k) (map fst a))"

definition formats_to :: "row \<Rightarrow> row \<Rightarrow> bool" where
  "formats_to r formatted =
    (case format_prompt r of Inl e \<Rightarrow> False | Inr processed \<Rightarrow> same_dict formatted processed)"

text \<open>
  A dictionary of exactly a prompt, a chosen completion and a rejected completion, all
  strs: what the DPO trainer reads from a row.
\<close>

definition is_triple :: "row \<Rightarrow> bool" where
  "is_triple r = (distinct (map fst r)
                  \<and> set (map fst r) = set [''prompt'', ''chosen'', ''rejected'']
                  \<and> is_str (map_of r ''prompt'') \<and> is_str (map_of r ''chosen'')
                  \<and> is_str (map_of r ''rejected''))"

text \<open>
  A message of a conversation as the chat dataset has it: a dictionary with a str role,
  one of user, system and assistant, and a str content.
\<close>

fun turn_of :: "pyval \<Rightarrow> (string \<times> string) option" where
  "turn_of (PDict message) =
    (case (map_of message ''role'', map_of message ''content'') of
       (Some (PStr role), Some (PStr content)) \<Rightarrow>
         if role \<in> set [''user'', ''system'', ''assistant''] then Some (role, content) else None
     | _ \<Rightarrow> None)"
| "turn_of _ = None"

text \<open>
  The stages that the specification orders: the dataset is loaded and mapped, the
  configuration objects are built, the trainer trains, the adapter is merged, the pipeline
  generates.
\<close>

datatype stage = Data | Config | Train | Merge | Generate

definition stage_of :: "string \<Rightarrow> stage option" where
  "stage_of f =
    (if f \<in> set [''load_dataset'', ''map''] then Some Data
     else if f \<in> set [''BitsAndBytesConfig'', ''LoraConfig'', ''TrainingArguments'', ''DPOConfig''] then Some Config
     else if f = ''train'' then Some Train
     else if f = ''merge_and_unload'' then Some Merge
     else if f = ''pipeline'' then Some Generate
     else None)"

fun stages :: "event list \<Rightarrow> stage list" where
  "stages [] = []"
| "stages (Call c # es) = (case stage_of (callee c) of None \<Rightarrow> stages es | Some st \<Rightarrow> st # stages es)"
| "stages (_ # es) = stages es"

text \<open>The calls of a log to a given function, and the positions of those calls.\<close>

fun calls_to :: "string \<Rightarrow> event list \<Rightarrow> call list" where
  "calls_to f [] = []"
| "calls_to f (Call c # es) = (if callee c = f then c # calls_to f es else calls_to f es)"
| "calls_to f (_ # es) = calls_to f es"

fun is_call_to :: "string \<Rightarrow> event \<Rightarrow> bool" where
  "is_call_to f (Call c) = (callee c = f)"
| "is_call_to f _ = False"

fun sites_from :: "nat \<Rightarrow> string \<Rightarrow> event list \<Rightarrow> nat list" where
  "sites_from i f [] = []"
| "sites_from i f (e # es) =
    (if is_call_to f e then i # sites_from (i + 1) f es else sites_from (i + 1) f es)"

definition call_sites :: "string \<Rightarrow> event list \<Rightarrow> nat list" where
  "call_sites f es = sites_from 0 f es"

text \<open>An event mentions a value when the value is its receiver, an argument or its target.\<close>

fun occurs :: "nbval \<Rightarrow> nbval \<Rightarrow> bool" where
  "occurs v (Attr w n) = (v = Attr w n \<or> occurs v w)"
| "occurs v (Item w k) = (v = Item w k \<or> occurs v w \<or> occurs v k)"
| "occurs v w = (v = w)"

fun mentions :: "nbval \<Rightarrow> event \<Rightarrow> bool" where
  "mentions v (Shell cmd) = False"
| "mentions v (Call c) =
    ((case self c of None \<Rightarrow> False | Some w \<Rightarrow> occurs v w)
     \<or> list_ex (occurs v) (args c) \<or> list_ex (\<lambda>kv. occurs v (snd kv)) (kwargs c))"
| "mentions v (SetAttr obj n w) = (occurs v obj \<or> occurs v w)"


section \<open>Helper facts\<close>

lemma format_prompt_strings:
  "map_of ex ''system'' = Some (PStr s) \<Longrightarrow> map_of ex ''input'' = Some (PStr i) \<Longrightarrow>
   map_of ex ''chosen'' = Some (PStr c) \<Longrightarrow> map_of ex ''rejected'' = Some (PStr r) \<Longrightarrow>
   format_prompt ex =
     Inr [(''prompt'', PStr (''<|system|>\<newline>'' @ s @ ''</s>\<newline>'' @ ''<|user|>\<newline>'' @ i @ '' </s>\<newline><|assistant|>\<newline>'')),
          (''chosen'', PStr (c @ ''</s>\<newline>'')),
          (''rejected'', PStr (r @ ''</s>\<newline>''))]"
  by (simp add: format_prompt_def getitem_def)

lemma has_texts_strings:
  assumes "has_texts r"
  obtains s i c j where "map_of r ''system'' = Some (PStr s)" "map_of r ''input'' = Some (PStr i)"
    "map_of r ''chosen'' = Some (PStr c)" "map_of r ''rejected'' = Some (PStr j)"
proof -
  from assms obtain s where s: "map_of r ''system'' = Some (PStr s)"
    unfolding has_texts_def using is_str.elims(2) by blast
  from assms obtain i where i: "map_of r ''input'' = Some (PStr i)"
    unfolding has_texts_def using is_str.elims(2) by blast
  from assms obtain c where c: "map_of r ''chosen'' = Some (PStr c)"
    unfolding has_texts_def using is_str.elims(2) by blast
  from assms obtain j where j: "map_of r ''rejected'' = Some (PStr j)"
    unfolding has_texts_def using is_str.elims(2) by blast
  from s i c j that show thesis by blast
qed

lemma format_prompt_texts:
  assumes "has_texts r"
  shows "\<exists>p c j. format_prompt r = Inr [(''prompt'', PStr p), (''chosen'', PStr c), (''rejected'', PStr j)]"
proof -
  from assms obtain s i c j where "map_of r ''system'' = Some (PStr s)" "map_of r ''input'' = Some (PStr i)"
    "map_of r ''chosen'' = Some (PStr c)" "map_of r ''rejected'' = Some (PStr j)"
    by (rule has_texts_strings)
  then show ?thesis by (simp add: format_prompt_strings)
qed

lemma format_prompt_needs_keys:
  assumes "format_prompt ex = Inr out"
  shows "map_of ex ''system'' \<noteq> None \<and> map_of ex ''input'' \<noteq> None
         \<and> map_of ex ''chosen'' \<noteq> None \<and> map_of ex ''rejected'' \<noteq> None"
  using assms
  by (simp add: format_prompt_def getitem_def split: sum.splits option.splits)

lemma keep_pair_rated: "rated r \<Longrightarrow> keep_pair r = Inr (PBool (retained r))"
proof -
  assume a: "rated r"
  from a obtain s where s: "map_of r ''status'' = Some (PStr s)"
    unfolding rated_def using is_str.elims(2) by blast
  from a obtain b where b: "map_of r ''in_gsm8k_train'' = Some (PBool b)"
    unfolding rated_def using is_bool.elims(2) by blast
  show ?thesis
  proof (cases "s = ''tie''")
    case True
    with s show ?thesis
      by (simp add: keep_pair_def getitem_def retained_def ne_str_def)
  next
    case False
    with a s have "is_number (map_of r ''chosen_score'')"
      unfolding rated_def by simp
    then consider i where "map_of r ''chosen_score'' = Some (PInt i)"
      | f where "map_of r ''chosen_score'' = Some (PFloat f)"
      using is_number.elims(2) by blast
    then show ?thesis
    proof cases
      case 1
      with s b show ?thesis
        by (simp add: keep_pair_def getitem_def retained_def ne_str_def)
    next
      case 2
      with s b show ?thesis
        by (cases f) (simp_all add: keep_pair_def getitem_def retained_def ne_str_def)
    qed
  qed
qed

lemma filter_rows_rated:
  "\<forall>r \<in> set rs. rated r \<Longrightarrow> filter_rows keep_pair rs = Inr (filter retained rs)"
  by (induction rs) (simp_all add: keep_pair_rated)

lemma pop_columns_all: "set (map fst r) \<subseteq> set cols \<Longrightarrow> pop_columns cols r = []"
  by (induction r) (auto simp add: pop_columns_def)

lemma dict_merge_triple:
  "dict_merge [] [(''prompt'', p), (''chosen'', c), (''rejected'', j)]
     = [(''prompt'', p), (''chosen'', c), (''rejected'', j)]"
  by (simp add: dict_merge_def)

lemma format_prompt_first_absent:
  assumes first: "find (\<lambda>k. map_of ex k = None) [''system'', ''input'', ''chosen'', ''rejected''] = Some k"
      and strs: "list_all (\<lambda>k. is_str (map_of ex k))
                   (takeWhile (\<lambda>k. map_of ex k \<noteq> None) [''system'', ''input'', ''chosen'', ''rejected''])"
  shows "format_prompt ex = Inl (KeyError k)"
proof (cases "map_of ex ''system''")
  case None
  with first show ?thesis by (simp add: format_prompt_def getitem_def)
next
  case (Some v1)
  with strs obtain s where s: "map_of ex ''system'' = Some (PStr s)"
    using is_str.elims(2) by fastforce
  show ?thesis
  proof (cases "map_of ex ''input''")
    case None
    with first s show ?thesis by (simp add: format_prompt_def getitem_def)
  next
    case (Some v2)
    with strs s obtain i where i: "map_of ex ''input'' = Some (PStr i)"
      using is_str.elims(2) by fastforce
    show ?thesis
    proof (cases "map_of ex ''chosen''")
      case None
      with first s i show ?thesis by (simp add: format_prompt_def getitem_def)
    next
      case (Some v3)
      with strs s i obtain c where c: "map_of ex ''chosen'' = Some (PStr c)"
        using is_str.elims(2) by fastforce
      from first s i c have "map_of ex ''rejected'' = None \<and> k = ''rejected''"
        by (simp split: if_splits)
      with s i c show ?thesis by (simp add: format_prompt_def getitem_def)
    qed
  qed
qed

lemma map_rows_texts:
  "\<forall>r \<in> set rs. has_texts r \<and> set (map fst r) \<subseteq> set cols \<Longrightarrow>
   \<exists>out. map_rows format_prompt cols rs = Inr out
     \<and> list_all2 (\<lambda>r processed. format_prompt r = Inr processed
           \<and> (\<exists>p c j. processed = [(''prompt'', PStr p), (''chosen'', PStr c), (''rejected'', PStr j)])) rs out"
proof (induction rs)
  case Nil
  then show ?case by simp
next
  case (Cons r rs)
  then obtain out where out: "map_rows format_prompt cols rs = Inr out"
    "list_all2 (\<lambda>r processed. format_prompt r = Inr processed
           \<and> (\<exists>p c j. processed = [(''prompt'', PStr p), (''chosen'', PStr c), (''rejected'', PStr j)])) rs out"
    by auto
  from Cons.prems have "has_texts r" by simp
  then obtain p c j where f: "format_prompt r = Inr [(''prompt'', PStr p), (''chosen'', PStr c), (''rejected'', PStr j)]"
    using format_prompt_texts by blast
  from Cons.prems have "pop_columns cols r = []" by (simp add: pop_columns_all)
  with out f show ?case by (simp add: dict_merge_triple)
qed

lemma arrange_keys:
  "set cols \<subseteq> set (map fst r) \<Longrightarrow>
   \<exists>w. arrange cols r = Inr w \<and> map fst w = cols \<and> (\<forall>c \<in> set cols. map_of w c = map_of r c)"
proof (induction cols)
  case Nil
  then show ?case by simp
next
  case (Cons c cs)
  then obtain w where w: "arrange cs r = Inr w" "map fst w = cs" "\<forall>c \<in> set cs. map_of w c = map_of r c"
    by auto
  from Cons.prems have "c \<in> set (map fst r)" by simp
  then obtain v where v: "map_of r c = Some v"
    by (metis map_of_eq_None_iff not_Some_eq set_map)
  with w show ?case by (simp add: getitem_def)
qed

lemma write_rows_all:
  "\<forall>r \<in> set rs. \<exists>w. arrange cols r = Inr w \<Longrightarrow>
   \<exists>ws. write_rows cols rs = Inr ws \<and> list_all2 (\<lambda>r w. arrange cols r = Inr w) rs ws"
proof (induction rs)
  case Nil
  then show ?case by simp
next
  case (Cons r rs)
  then obtain ws where "write_rows cols rs = Inr ws" "list_all2 (\<lambda>r w. arrange cols r = Inr w) rs ws"
    by auto
  moreover from Cons.prems obtain w where "arrange cols r = Inr w" by auto
  ultimately show ?case by simp
qed

lemma triple_columns:
  assumes "distinct old"
  shows "distinct (mapped_columns old cols ([(''prompt'', p), (''chosen'', c), (''rejected'', j)] # rest))
    \<and> set (mapped_columns old cols ([(''prompt'', p), (''chosen'', c), (''rejected'', j)] # rest))
        = {''prompt'', ''chosen'', ''rejected''}"
  using assms by (auto simp add: mapped_columns_def)

lemma dataset_map_texts:
  assumes t: "table d" and h: "\<forall>r \<in> set (rows d). has_texts r"
  shows "\<exists>out. dataset_map format_prompt (column_names d) d = Inr out
          \<and> list_all2 formats_to (rows d) (rows out)
          \<and> list_all is_triple (rows out)
          \<and> table out"
proof -
  let ?cols = "column_names d"
  from t h have "\<forall>r \<in> set (rows d). has_texts r \<and> set (map fst r) \<subseteq> set ?cols"
    by (simp add: table_def)
  then obtain ps where ps: "map_rows format_prompt ?cols (rows d) = Inr ps"
    and rel: "list_all2 (\<lambda>r processed. format_prompt r = Inr processed
           \<and> (\<exists>p c j. processed = [(''prompt'', PStr p), (''chosen'', PStr c), (''rejected'', PStr j)])) (rows d) ps"
    using map_rows_texts by blast
  let ?new = "mapped_columns ?cols ?cols ps"
  have triples: "\<exists>p c j. x = [(''prompt'', PStr p), (''chosen'', PStr c), (''rejected'', PStr j)]"
    if "x \<in> set ps" for x
    using rel that by (auto simp add: list_all2_conv_all_nth in_set_conv_nth)
  have new: "distinct ?new \<and> set ?new = {''prompt'', ''chosen'', ''rejected''}" if "ps \<noteq> []"
  proof -
    from that obtain x rest where x: "ps = x # rest" by (cases ps) auto
    then have "x \<in> set ps" by simp
    from triples [OF this] obtain p c j
      where p: "x = [(''prompt'', PStr p), (''chosen'', PStr c), (''rejected'', PStr j)]"
      by blast
    from rel x obtain r where "r \<in> set (rows d)" by (cases "rows d") auto
    with t have "distinct ?cols" by (auto simp add: table_def)
    with x p show ?thesis using triple_columns by simp
  qed
  have arr: "\<exists>w. arrange ?new x = Inr w \<and> map fst w = ?new \<and> (\<forall>c \<in> set ?new. map_of w c = map_of x c)"
    if "x \<in> set ps" for x
  proof -
    from that have "ps \<noteq> []" by auto
    with new have "set ?new = {''prompt'', ''chosen'', ''rejected''}" by simp
    moreover from triples [OF that] have "set (map fst x) = {''prompt'', ''chosen'', ''rejected''}" by auto
    ultimately have "set ?new \<subseteq> set (map fst x)" by simp
    then show ?thesis by (rule arrange_keys)
  qed
  then have "\<forall>x \<in> set ps. \<exists>w. arrange ?new x = Inr w" by blast
  then obtain ws where ws: "write_rows ?new ps = Inr ws"
    and wrel: "list_all2 (\<lambda>x w. arrange ?new x = Inr w) ps ws"
    using write_rows_all by blast
  let ?out = "\<lparr>column_names = ?new, rows = ws\<rparr>"
  from ps ws have m: "dataset_map format_prompt ?cols d = Inr ?out"
    by (simp add: dataset_map_def)
  have len: "length (rows d) = length ps" "length ps = length ws"
    using rel wrel by (simp_all add: list_all2_lengthD)
  have row: "formats_to (rows d ! i) (ws ! i) \<and> is_triple (ws ! i) \<and> map fst (ws ! i) = ?new"
    if i: "i < length ws" for i
  proof -
    from i len have ips: "i < length ps" and ird: "i < length (rows d)" by simp_all
    from rel ird obtain p c j where f: "format_prompt (rows d ! i) = Inr (ps ! i)"
      and x: "ps ! i = [(''prompt'', PStr p), (''chosen'', PStr c), (''rejected'', PStr j)]"
      by (auto simp add: list_all2_conv_all_nth)
    from ips have mem: "ps ! i \<in> set ps" and ne: "ps \<noteq> []" by auto
    from wrel ips have a: "arrange ?new (ps ! i) = Inr (ws ! i)"
      by (simp add: list_all2_conv_all_nth)
    with arr [OF mem] have k: "map fst (ws ! i) = ?new"
      and v: "\<forall>c \<in> set ?new. map_of (ws ! i) c = map_of (ps ! i) c"
      by auto
    from new [OF ne] have d: "distinct ?new" and n: "set ?new = {''prompt'', ''chosen'', ''rejected''}"
      by simp_all
    from k v n x have same: "same_dict (ws ! i) (ps ! i)"
      by (simp add: same_dict_def list_all_iff)
    from n have "''prompt'' \<in> set ?new" "''chosen'' \<in> set ?new" "''rejected'' \<in> set ?new"
      by simp_all
    with v have "map_of (ws ! i) ''prompt'' = map_of (ps ! i) ''prompt''"
      "map_of (ws ! i) ''chosen'' = map_of (ps ! i) ''chosen''"
      "map_of (ws ! i) ''rejected'' = map_of (ps ! i) ''rejected''"
      by blast+
    then have mp: "map_of (ws ! i) ''prompt'' = Some (PStr p)"
      "map_of (ws ! i) ''chosen'' = Some (PStr c)"
      "map_of (ws ! i) ''rejected'' = Some (PStr j)"
      by (simp_all add: x)
    have "is_triple (ws ! i)"
      unfolding is_triple_def mp k using d n by simp
    with f same k show ?thesis by (simp add: formats_to_def)
  qed
  from row len have "list_all2 formats_to (rows d) ws"
    by (simp add: list_all2_conv_all_nth)
  moreover from row have "list_all is_triple ws"
    by (auto simp add: list_all_iff in_set_conv_nth)
  moreover have "table ?out"
  proof -
    have "map fst w = ?new \<and> distinct ?new" if "w \<in> set ws" for w
    proof -
      from that obtain i where i: "i < length ws" "ws ! i = w" by (auto simp add: in_set_conv_nth)
      with len have "ps \<noteq> []" by auto
      with new row [OF i(1)] i(2) show ?thesis by simp
    qed
    then show ?thesis by (auto simp add: table_def)
  qed
  ultimately show ?thesis using m by auto
qed

lemma render_message_turn:
  assumes "turn_of message = Some (role, content)"
  shows "render_message message = Inr (concat [''<|'', role, ''|>\<newline>'', content, ''</s>\<newline>''])"
proof (cases message)
  case (PDict m)
  with assms show ?thesis
    by (auto simp add: role_tag_def split: option.splits pyval.splits if_splits)
qed (use assms in simp_all)

lemma render_messages_turns:
  "list_all2 (\<lambda>message turn. turn_of message = Some turn) messages turns \<Longrightarrow>
   render_messages messages =
     Inr (concat (map (\<lambda>(role, content). concat [''<|'', role, ''|>\<newline>'', content, ''</s>\<newline>'']) turns))"
proof (induction rule: list_all2_induct)
  case Nil
  then show ?case by simp
next
  case (Cons message messages turn turns)
  obtain role content where t: "turn = (role, content)" by (cases turn)
  with Cons.hyps have "render_message message = Inr (concat [''<|'', role, ''|>\<newline>'', content, ''</s>\<newline>''])"
    using render_message_turn by simp
  with Cons.IH t show ?case by simp
qed

lemma dpo_cell:
  assumes "preference_pairs hub"
  obtains d1 d2 where "dataset_filter keep_pair hub = Inr d1"
    and "column_names d1 = column_names hub"
    and "rows d1 = filter retained (rows hub)"
    and "dataset_map format_prompt (column_names d1) d1 = Inr d2"
    and "list_all2 formats_to (rows d1) (rows d2)"
    and "list_all is_triple (rows d2)"
    and "table d2"
proof -
  from assms have all: "\<forall>r \<in> set (rows hub). rated r \<and> has_texts r"
    and t: "table hub"
    by (auto simp add: preference_pairs_def list_all_iff)
  define d1 where "d1 = hub\<lparr>rows := filter retained (rows hub)\<rparr>"
  from all have f: "dataset_filter keep_pair hub = Inr d1"
    by (simp add: dataset_filter_def filter_rows_rated d1_def)
  have c1: "column_names d1 = column_names hub" and r1: "rows d1 = filter retained (rows hub)"
    by (simp_all add: d1_def)
  from t have t1: "table d1"
    by (auto simp add: table_def d1_def)
  from all have h1: "\<forall>r \<in> set (rows d1). has_texts r"
    by (simp add: d1_def)
  from dataset_map_texts [OF t1 h1] obtain d2
    where "dataset_map format_prompt (column_names d1) d1 = Inr d2"
      and "list_all2 formats_to (rows d1) (rows d2)"
      and "list_all is_triple (rows d2)"
      and "table d2"
    by blast
  with f c1 r1 that show thesis by blast
qed

lemma sample_pairs_ok: "preference_pairs sample_pairs"
  by (simp add: preference_pairs_def sample_pairs_def table_def rated_def has_texts_def)

text \<open>
  The logs of the two notebooks. That of the DPO notebook is the one of a run in which the
  filter and the map of the first cell succeed, with \<open>d1\<close> the filtered table and \<open>d2\<close>
  the formatted one.
\<close>

lemmas nb_defs = run_def emit_def shell_def setattr_def lib_call_def raise_def load_dataset_def
  filter_method_def map_method_def Let_def

lemma instruction_tuning_log:
  "run instruction_tuning_notebook =
    \<lparr>trace =
     [
      Shell ''pip install torch torchvision torchaudio'',
      Call \<lparr>callee = ''AutoTokenizer.from_pretrained'', self = None,
         args = [Lit (PStr ''TinyLlama/TinyLlama-1.1B-Chat-v1.0'')],
         kwargs = []\<rparr>,
      Call \<lparr>callee = ''load_dataset'', self = None,
         args = [Lit (PStr ''HuggingFaceH4/ultrachat_200k'')],
         kwargs = [(''split'', Lit (PStr ''test_sft''))]\<rparr>,
      Call \<lparr>callee = ''shuffle'', self = Some (Obj 2),
         args = [],
         kwargs = [(''seed'', Lit (PInt 42))]\<rparr>,
      Call \<lparr>callee = ''range'', self = None, args = [Lit (PInt 3000)], kwargs = []\<rparr>,
      Call \<lparr>callee = ''select'', self = Some (Obj 3), args = [Obj 4], kwargs = []\<rparr>,
      Call \<lparr>callee = ''map'', self = Some (Obj 5),
         args = [FuncRef ''format_prompt''],
         kwargs = []\<rparr>,
      Call \<lparr>callee = ''print'', self = None,
         args = [Item (Item (Obj 6) (Lit (PStr ''text''))) (Lit (PInt 2576))],
         kwargs = []\<rparr>,
      Call \<lparr>callee = ''BitsAndBytesConfig'', self = None,
         args = [],
         kwargs =
           [(''load_in_4bit'', Lit (PBool True)),
            (''bnb_4bit_quant_type'', Lit (PStr ''nf4'')),
            (''bnb_4bit_compute_dtype'', Lit (PStr ''float16'')),
            (''bnb_4bit_use_double_quant'', Lit (PBool True))]\<rparr>,
      Call \<lparr>callee = ''AutoModelForCausalLM.from_pretrained'', self = None,
         args = [Lit (PStr ''TinyLlama/TinyLlama-1.1B-intermediate-step-1431k-3T'')],
         kwargs = [(''device_map'', Lit (PStr ''auto'')), (''quantization_config'', Obj 8)]\<rparr>,
      SetAttr (Attr (Obj 9) ''config'') ''use_cache'' (Lit (PBool False)),
      SetAttr (Attr (Obj 9) ''config'') ''pretraining_tp'' (Lit (PInt 1)),
      Call \<lparr>callee = ''AutoTokenizer.from_pretrained'', self = None,
         args = [Lit (PStr ''TinyLlama/TinyLlama-1.1B-intermediate-step-1431k-3T'')],
         kwargs = [(''trust_remote_code'', Lit (PBool True))]\<rparr>,
      SetAttr (Obj 12) ''pad_token'' (Lit (PStr ''<PAD>'')),
      SetAttr (Obj 12) ''padding_side'' (Lit (PStr ''left'')),
      Call \<lparr>callee = ''LoraConfig'', self = None,
         args = [],
         kwargs =
           [(''lora_alpha'', Lit (PInt 32)),
            (''lora_dropout'', Lit (PFloat (Finite (1 / 10)))),
            (''r'', Lit (PInt 64)),
            (''bias'', Lit (PStr ''none'')),
            (''task_type'', Lit (PStr ''CAUSAL_LM'')),
            (''target_modules'', Lit (PList [PStr ''k_proj'', PStr ''gate_proj'', PStr ''v_proj'', PStr ''up_proj'', PStr ''q_proj'', PStr ''o_proj'', PStr ''down_proj'']))]\<rparr>,
      Call \<lparr>callee = ''prepare_model_for_kbit_training'', self = None,
         args = [Obj 9],
         kwargs = []\<rparr>,
      Call \<lparr>callee = ''get_peft_model'', self = None,
         args = [Obj 16, Obj 15],
         kwargs = []\<rparr>,
      Call \<lparr>callee = ''TrainingArguments'', self = None,
         args = [],
         kwargs =
           [(''output_dir'', Lit (PStr ''./results'')),
            (''per_device_train_batch_size'', Lit (PInt 2)),
            (''gradient_accumulation_steps'', Lit (PInt 4)),
            (''optim'', Lit (PStr ''paged_adamw_32bit'')),
            (''learning_rate'', Lit (PFloat (Finite (1 / 5000)))),
            (''lr_scheduler_type'', Lit (PStr ''cosine'')),
            (''num_train_epochs'', Lit (PInt 1)),
            (''logging_steps'', Lit (PInt 10)),
            (''fp16'', Lit (PBool True)),
            (''gradient_checkpointing'', Lit (PBool True))]\<rparr>,
      Call \<lparr>callee = ''SFTTrainer'', self = None,
         args = [],
         kwargs =
           [(''model'', Obj 17),
            (''train_dataset'', Obj 6),
            (''dataset_text_field'', Lit (PStr ''text'')),
            (''tokenizer'', Obj 12),
            (''args'', Obj 18),
            (''max_seq_length'', Lit (PInt 512)),
            (''peft_config'', Obj 15)]\<rparr>,
      Call \<lparr>callee = ''train'', self = Some (Obj 19), args = [], kwargs = []\<rparr>,
      Call \<lparr>callee = ''save_pretrained'', self = Some (Attr (Obj 19) ''model''),
         args = [Lit (PStr ''TinyLlama-1.1B-qlora'')],
         kwargs = []\<rparr>,
      Call \<lparr>callee = ''AutoPeftModelForCausalLM.from_pretrained'', self = None,
         args = [Lit (PStr ''TinyLlama-1.1B-qlora'')],
         kwargs = [(''low_cpu_mem_usage'', Lit (PBool True)), (''device_map'', Lit (PStr ''auto''))]\<rparr>,
      Call \<lparr>callee = ''merge_and_unload'', self = Some (Obj 22),
         args = [],
         kwargs = []\<rparr>,
      Call \<lparr>callee = ''pipeline'', self = None,
         args = [],
         kwargs =
           [(''task'', Lit (PStr ''text-generation'')),
            (''model'', Obj 23),
            (''tokenizer'', Obj 12)]\<rparr>,
      Call \<lparr>callee = ''__call__'', self = Some (Obj 24),
         args = [Lit (PStr ''<|user|>\<newline>Tell me something about Large Language Models.</s>\<newline><|assistant|>\<newline>'')],
         kwargs = []\<rparr>,
      Call \<lparr>callee = ''print'', self = None,
         args = [Item (Item (Obj 25) (Lit (PInt 0))) (Lit (PStr ''generated_text''))],
         kwargs = []\<rparr>],
     raised = None\<rparr>"
  by (simp add: instruction_tuning_notebook_def nb_defs)

lemma dpo_log:
  assumes "dataset_filter keep_pair hub = Inr d1"
      and "dataset_map format_prompt (column_names d1) d1 = Inr d2"
  shows "run (dpo_notebook hub) =
    \<lparr>trace =
     [
      Shell ''conda install -c conda-forge pytorch=2.2.0 torchvision=0.17.0 torchtext=0.17.2 cpuonly numpy pandas matplotlib scikit-learn tqdm -y'',
      Shell ''pip install datasets==2.20.0 trl==0.9.6 transformers==4.42.3 peft==0.11.1 sacrebleu==2.4.2 evaluate==0.4.2'',
      Call \<lparr>callee = ''load_dataset'', self = None,
         args = [Lit (PStr ''argilla/distilabel-intel-orca-dpo-pairs'')],
         kwargs = [(''split'', Lit (PStr ''train''))]\<rparr>,
      Call \<lparr>callee = ''filter'', self = Some (Table hub),
         args = [FuncRef ''lambda''],
         kwargs = []\<rparr>,
      Call \<lparr>callee = ''map'', self = Some (Table d1),
         args = [FuncRef ''format_prompt''],
         kwargs = [(''remove_columns'', Lit (PList (map PStr (column_names d1))))]\<rparr>,
      Call \<lparr>callee = ''BitsAndBytesConfig'', self = None,
         args = [],
         kwargs =
           [(''load_in_4bit'', Lit (PBool True)),
            (''bnb_4bit_quant_type'', Lit (PStr ''nf4'')),
            (''bnb_4bit_compute_dtype'', Lit (PStr ''float16'')),
            (''bnb_4bit_use_double_quant'', Lit (PBool True))]\<rparr>,
      Call \<lparr>callee = ''AutoTokenizer.from_pretrained'', self = None,
         args = [Lit (PStr ''TinyLlama/TinyLlama-1.1B-Chat-v1.0'')],
         kwargs = [(''trust_remote_code'', Lit (PBool True))]\<rparr>,
      SetAttr (Obj 6) ''pad_token'' (Lit (PStr ''<PAD>'')),
      SetAttr (Obj 6) ''padding_side'' (Lit (PStr ''left'')),
      Call \<lparr>callee = ''AutoModelForCausalLM.from_pretrained'', self = None,
         args = [Lit (PStr ''TinyLlama/TinyLlama-1.1B-Chat-v1.0'')],
         kwargs =
           [(''device_map'', Lit (PStr ''auto'')),
            (''quantization_config'', Obj 5),
            (''trust_remote_code'', Lit (PBool True))]\<rparr>,
      SetAttr (Attr (Obj 9) ''config'') ''use_cache'' (Lit (PBool False)),
      SetAttr (Attr (Obj 9) ''config'') ''pretraining_tp'' (Lit (PInt 1)),
      Call \<lparr>callee = ''LoraConfig'', self = None,
         args = [],
         kwargs =
           [(''lora_alpha'', Lit (PInt 32)),
            (''lora_dropout'', Lit (PFloat (Finite (1 / 20)))),
            (''r'', Lit (PInt 64)),
            (''bias'', Lit (PStr ''none'')),
            (''task_type'', Lit (PStr ''CAUSAL_LM'')),
            (''target_modules'', Lit (PList [PStr ''k_proj'', PStr ''gate_proj'', PStr ''v_proj'', PStr ''up_proj'', PStr ''q_proj'', PStr ''o_proj'', PStr ''down_proj'']))]\<rparr>,
      Call \<lparr>callee = ''prepare_model_for_kbit_training'', self = None,
         args = [Obj 9],
         kwargs = []\<rparr>,
      Call \<lparr>callee = ''get_peft_model'', self = None,
         args = [Obj 13, Obj 12],
         kwargs = []\<rparr>,
      Call \<lparr>callee = ''DPOConfig'', self = None,
         args = [],
         kwargs =
           [(''output_dir'', Lit (PStr ''./dpo-tinyllama'')),
            (''per_device_train_batch_size'', Lit (PInt 2)),
            (''gradient_accumulation_steps'', Lit (PInt 4)),
            (''optim'', Lit (PStr ''paged_adamw_32bit'')),
            (''learning_rate'', Lit (PFloat (Finite (1 / 100000)))),
            (''lr_scheduler_type'', Lit (PStr ''cosine'')),
            (''max_steps'', Lit (PInt 200)),
            (''logging_steps'', Lit (PInt 10)),
            (''fp16'', Lit (PBool True)),
            (''gradient_checkpointing'', Lit (PBool True)),
            (''warmup_ratio'', Lit (PFloat (Finite (1 / 10)))),
            (''beta'', Lit (PFloat (Finite (1 / 10)))),
            (''label_smoothing'', Lit (PFloat (Finite 0))),
            (''loss_type'', Lit (PStr ''sigmoid''))]\<rparr>,
      Call \<lparr>callee = ''DPOTrainer'', self = None,
         args = [Obj 14],
         kwargs =
           [(''ref_model'', Lit PNone),
            (''args'', Obj 15),
            (''train_dataset'', Table d2),
            (''tokenizer'', Obj 6),
            (''peft_config'', Obj 12),
            (''beta'', Lit (PFloat (Finite (1 / 10)))),
            (''max_prompt_length'', Lit (PInt 512)),
            (''max_length'', Lit (PInt 512))]\<rparr>,
      Call \<lparr>callee = ''train'', self = Some (Obj 16), args = [], kwargs = []\<rparr>,
      Call \<lparr>callee = ''pd.DataFrame'', self = None,
         args = [Attr (Attr (Obj 16) ''state'') ''log_history''],
         kwargs = []\<rparr>,
      Call \<lparr>callee = ''notna'', self = Some (Item (Obj 18) (Lit (PStr ''loss''))),
         args = [],
         kwargs = []\<rparr>,
      Call \<lparr>callee = ''notna'', self = Some (Item (Obj 18) (Lit (PStr ''eval_loss''))),
         args = [],
         kwargs = []\<rparr>,
      Call \<lparr>callee = ''plt.plot'', self = None,
         args = [Item (Item (Obj 18) (Obj 19)) (Lit (PStr ''epoch'')), Item (Item (Obj 18) (Obj 19)) (Lit (PStr ''loss''))],
         kwargs = [(''label'', Lit (PStr ''Train''))]\<rparr>,
      Call \<lparr>callee = ''plt.plot'', self = None,
         args = [Item (Item (Obj 18) (Obj 20)) (Lit (PStr ''epoch'')), Item (Item (Obj 18) (Obj 20)) (Lit (PStr ''eval_loss''))],
         kwargs = [(''label'', Lit (PStr ''Eval''))]\<rparr>,
      Call \<lparr>callee = ''plt.title'', self = None,
         args = [Lit (PStr ''Model Losses'')],
         kwargs = []\<rparr>,
      Call \<lparr>callee = ''plt.legend'', self = None, args = [], kwargs = []\<rparr>,
      Call \<lparr>callee = ''plt.show'', self = None, args = [], kwargs = []\<rparr>,
      Call \<lparr>callee = ''save_model'', self = Some (Obj 16),
         args = [Lit (PStr ''./dpo-tinyllama'')],
         kwargs = []\<rparr>,
      Call \<lparr>callee = ''merge_and_unload'', self = Some (Obj 14),
         args = [],
         kwargs = []\<rparr>,
      Call \<lparr>callee = ''save_pretrained'', self = Some (Obj 27),
         args = [Lit (PStr ''./dpo-tinyllama-merged'')],
         kwargs = []\<rparr>,
      Call \<lparr>callee = ''save_pretrained'', self = Some (Obj 6),
         args = [Lit (PStr ''./dpo-tinyllama-merged'')],
         kwargs = []\<rparr>,
      Call \<lparr>callee = ''AutoModelForCausalLM.from_pretrained'', self = None,
         args = [Lit (PStr ''./dpo-tinyllama-merged'')],
         kwargs = [(''device_map'', Lit (PStr ''auto'')), (''trust_remote_code'', Lit (PBool True))]\<rparr>,
      Call \<lparr>callee = ''AutoTokenizer.from_pretrained'', self = None,
         args = [Lit (PStr ''./dpo-tinyllama-merged'')],
         kwargs = [(''trust_remote_code'', Lit (PBool True))]\<rparr>,
      Call \<lparr>callee = ''pipeline'', self = None,
         args = [Lit (PStr ''text-generation'')],
         kwargs =
           [(''model'', Obj 30),
            (''tokenizer'', Obj 31),
            (''max_new_tokens'', Lit (PInt 256)),
            (''temperature'', Lit (PFloat (Finite (7 / 10)))),
            (''do_sample'', Lit (PBool True))]\<rparr>,
      Call \<lparr>callee = ''__call__'', self = Some (Obj 32),
         args = [Lit (PStr ''Explain quantum computing in simple terms.'')],
         kwargs = []\<rparr>,
      Call \<lparr>callee = ''print'', self = None,
         args = [Item (Item (Obj 33) (Lit (PInt 0))) (Lit (PStr ''generated_text''))],
         kwargs = []\<rparr>],
     raised = None\<rparr>"
  by (simp add: dpo_notebook_def nb_defs assms)

section \<open>The preference-pair filter\<close>

text \<open>
  C1. On a dataset whose rows follow the schema (a str status, a numeric score unless the
  pair is a tie, a bool GSM8K flag), the filter of the DPO notebook succeeds, and it
  retains a row if and only if the row's status is not \<open>tie\<close>, its chosen score is at
  least 8 and it is not in the GSM8K training set; the rows kept stay in order, and a row
  failing one of the three conditions is not in the result.
\<close>

theorem dpo_filter_retains_iff:
  assumes "\<forall>r \<in> set (rows d). rated r"
  shows "\<exists>out. dataset_filter keep_pair d = Inr out
           \<and> column_names out = column_names d
           \<and> rows out = filter retained (rows d)
           \<and> (\<forall>r. r \<in> set (rows out) \<longleftrightarrow> r \<in> set (rows d) \<and> retained r)"
  using assms by (simp add: dataset_filter_def filter_rows_rated)

text \<open>
  Of four rows (one kept, one tie without a score, one rated 7, one from the GSM8K training
  set) the filter keeps the first only.
\<close>

theorem dpo_filter_retains_iff_witness:
  "list_all rated (rows \<lparr>column_names = [''status'', ''chosen_score'', ''in_gsm8k_train''],
       rows = [[(''status'', PStr ''changed''), (''chosen_score'', PFloat (Finite 9)), (''in_gsm8k_train'', PBool False)],
               [(''status'', PStr ''tie''), (''chosen_score'', PNone), (''in_gsm8k_train'', PBool False)],
               [(''status'', PStr ''unchanged''), (''chosen_score'', PFloat (Finite 7)), (''in_gsm8k_train'', PBool False)],
               [(''status'', PStr ''unchanged''), (''chosen_score'', PInt 10), (''in_gsm8k_train'', PBool True)]]\<rparr>)
   \<and> (\<exists>out. dataset_filter keep_pair \<lparr>column_names = [''status'', ''chosen_score'', ''in_gsm8k_train''],
       rows = [[(''status'', PStr ''changed''), (''chosen_score'', PFloat (Finite 9)), (''in_gsm8k_train'', PBool False)],
               [(''status'', PStr ''tie''), (''chosen_score'', PNone), (''in_gsm8k_train'', PBool False)],
               [(''status'', PStr ''unchanged''), (''chosen_score'', PFloat (Finite 7)), (''in_gsm8k_train'', PBool False)],
               [(''status'', PStr ''unchanged''), (''chosen_score'', PInt 10), (''in_gsm8k_train'', PBool True)]]\<rparr>
       = Inr out
     \<and> rows out = [[(''status'', PStr ''changed''), (''chosen_score'', PFloat (Finite 9)), (''in_gsm8k_train'', PBool False)]])"
proof -
  let ?d = "\<lparr>column_names = [''status'', ''chosen_score'', ''in_gsm8k_train''],
       rows = [[(''status'', PStr ''changed''), (''chosen_score'', PFloat (Finite 9)), (''in_gsm8k_train'', PBool False)],
               [(''status'', PStr ''tie''), (''chosen_score'', PNone), (''in_gsm8k_train'', PBool False)],
               [(''status'', PStr ''unchanged''), (''chosen_score'', PFloat (Finite 7)), (''in_gsm8k_train'', PBool False)],
               [(''status'', PStr ''unchanged''), (''chosen_score'', PInt 10), (''in_gsm8k_train'', PBool True)]]\<rparr>"
  have h: "\<forall>r \<in> set (rows ?d). rated r"
    by (simp add: rated_def)
  then have l: "list_all rated (rows ?d)"
    by (simp only: list_all_iff)
  have f: "filter retained (rows ?d) = [[(''status'', PStr ''changed''), (''chosen_score'', PFloat (Finite 9)), (''in_gsm8k_train'', PBool False)]]"
    by (simp add: retained_def)
  from dpo_filter_retains_iff [OF h] obtain out
    where "dataset_filter keep_pair ?d = Inr out" and "rows out = filter retained (rows ?d)"
    by blast
  with f have "\<exists>out. dataset_filter keep_pair ?d = Inr out
     \<and> rows out = [[(''status'', PStr ''changed''), (''chosen_score'', PFloat (Finite 9)), (''in_gsm8k_train'', PBool False)]]"
    by simp
  with l show ?thesis by (rule conjI)
qed

section \<open>The DPO prompt format\<close>

text \<open>
  C2. For every example whose \<open>system\<close>, \<open>input\<close>, \<open>chosen\<close> and \<open>rejected\<close> fields are
  strings, \<open>format_prompt\<close> returns exactly the dictionary with the prompt
  \<open>"<|system|>\n" + system + "</s>\n" + "<|user|>\n" + input + " </s>\n<|assistant|>\n"\<close>,
  the chosen completion \<open>chosen + "</s>\n"\<close> and the rejected completion
  \<open>rejected + "</s>\n"\<close>: one space before the end-of-sequence token of the user turn, none
  before that of the completions.
\<close>

theorem format_prompt_returns:
  assumes "map_of example ''system'' = Some (PStr system)"
      and "map_of example ''input'' = Some (PStr inp)"
      and "map_of example ''chosen'' = Some (PStr chosen)"
      and "map_of example ''rejected'' = Some (PStr rejected)"
  shows "format_prompt example =
     Inr [(''prompt'', PStr (''<|system|>\<newline>'' @ system @ ''</s>\<newline>'' @ ''<|user|>\<newline>'' @ inp @ '' </s>\<newline><|assistant|>\<newline>'')),
          (''chosen'', PStr (chosen @ ''</s>\<newline>'')),
          (''rejected'', PStr (rejected @ ''</s>\<newline>''))]"
  using assms by (rule format_prompt_strings)

theorem format_prompt_returns_witness:
  "format_prompt [(''system'', PStr ''Be brief.''), (''input'', PStr ''2+2?''), (''chosen'', PStr ''4''), (''rejected'', PStr ''5'')] =
     Inr [(''prompt'', PStr ''<|system|>\<newline>Be brief.</s>\<newline><|user|>\<newline>2+2? </s>\<newline><|assistant|>\<newline>''),
          (''chosen'', PStr ''4</s>\<newline>''),
          (''rejected'', PStr ''5</s>\<newline>'')]"
  using format_prompt_returns
    [of "[(''system'', PStr ''Be brief.''), (''input'', PStr ''2+2?''), (''chosen'', PStr ''4''), (''rejected'', PStr ''5'')]"
        "''Be brief.''" "''2+2?''" "''4''" "''5''"]
  by simp

section \<open>How the prompts are built\<close>

text \<open>
  C3. Both prompt-formatting functions return a prompt that is a concatenation of fields of
  the example with fixed literals. The DPO notebook's \<open>format_prompt\<close> joins the fields
  \<open>system\<close> and \<open>input\<close>, and each completion, with the literals of its template. The
  instruction-tuning notebook's \<open>format_prompt\<close> hands \<open>example["messages"]\<close> to the chat
  template: for a conversation that is not empty and whose messages are user, system or
  assistant turns with a string as content, the value stored under \<open>text\<close> is, turn after
  turn, \<open>"<|"\<close>, the role, \<open>"|>\n"\<close>, the content and \<open>"</s>\n"\<close> joined together.
\<close>

theorem prompts_built_by_concatenation:
  "(map_of example ''system'' = Some (PStr system) \<and> map_of example ''input'' = Some (PStr inp)
      \<and> map_of example ''chosen'' = Some (PStr chosen) \<and> map_of example ''rejected'' = Some (PStr rejected)
     \<longrightarrow> format_prompt example =
          Inr [(''prompt'', PStr (concat [''<|system|>\<newline>'', system, ''</s>\<newline>'', ''<|user|>\<newline>'', inp, '' </s>\<newline><|assistant|>\<newline>''])),
               (''chosen'', PStr (concat [chosen, ''</s>\<newline>''])),
               (''rejected'', PStr (concat [rejected, ''</s>\<newline>'']))])
   \<and> (map_of conversation ''messages'' = Some (PList messages) \<and> messages \<noteq> []
      \<and> list_all2 (\<lambda>message turn. turn_of message = Some turn) messages turns
     \<longrightarrow> format_prompt_chat chat_template conversation =
          Inr [(''text'', PStr (concat (map (\<lambda>(role, content).
                   concat [''<|'', role, ''|>\<newline>'', content, ''</s>\<newline>'']) turns)))])"
proof (intro conjI impI)
  assume "map_of example ''system'' = Some (PStr system) \<and> map_of example ''input'' = Some (PStr inp)
      \<and> map_of example ''chosen'' = Some (PStr chosen) \<and> map_of example ''rejected'' = Some (PStr rejected)"
  then show "format_prompt example =
          Inr [(''prompt'', PStr (concat [''<|system|>\<newline>'', system, ''</s>\<newline>'', ''<|user|>\<newline>'', inp, '' </s>\<newline><|assistant|>\<newline>''])),
               (''chosen'', PStr (concat [chosen, ''</s>\<newline>''])),
               (''rejected'', PStr (concat [rejected, ''</s>\<newline>'']))]"
    by (simp add: format_prompt_strings)
next
  assume a: "map_of conversation ''messages'' = Some (PList messages) \<and> messages \<noteq> []
      \<and> list_all2 (\<lambda>message turn. turn_of message = Some turn) messages turns"
  then obtain first rest where m: "messages = first # rest" by (cases messages) auto
  with a obtain turn where "turn_of first = Some turn" by (auto simp add: list_all2_Cons1)
  then obtain d where d: "first = PDict d" by (cases first) simp_all
  from a have "render_messages messages =
     Inr (concat (map (\<lambda>(role, content). concat [''<|'', role, ''|>\<newline>'', content, ''</s>\<newline>'']) turns))"
    using render_messages_turns by blast
  with m d have "chat_template (PList messages) =
     Inr (PStr (concat (map (\<lambda>(role, content). concat [''<|'', role, ''|>\<newline>'', content, ''</s>\<newline>'']) turns)))"
    by simp
  with a show "format_prompt_chat chat_template conversation =
          Inr [(''text'', PStr (concat (map (\<lambda>(role, content).
                   concat [''<|'', role, ''|>\<newline>'', content, ''</s>\<newline>'']) turns)))]"
    by (simp add: format_prompt_chat_def getitem_def)
qed

theorem prompts_built_by_concatenation_witness:
  "format_prompt [(''system'', PStr ''Be brief.''), (''input'', PStr ''2+2?''), (''chosen'', PStr ''4''), (''rejected'', PStr ''5'')]
     = Inr [(''prompt'', PStr ''<|system|>\<newline>Be brief.</s>\<newline><|user|>\<newline>2+2? </s>\<newline><|assistant|>\<newline>''),
            (''chosen'', PStr ''4</s>\<newline>''), (''rejected'', PStr ''5</s>\<newline>'')]
   \<and> format_prompt_chat chat_template
        [(''prompt'', PStr ''Hi''), (''prompt_id'', PStr ''0''),
         (''messages'', PList [PDict [(''content'', PStr ''Hi''), (''role'', PStr ''user'')],
                               PDict [(''content'', PStr ''Hello''), (''role'', PStr ''assistant'')]])]
     = Inr [(''text'', PStr ''<|user|>\<newline>Hi</s>\<newline><|assistant|>\<newline>Hello</s>\<newline>'')]"
  using prompts_built_by_concatenation
    [of "[(''system'', PStr ''Be brief.''), (''input'', PStr ''2+2?''), (''chosen'', PStr ''4''), (''rejected'', PStr ''5'')]"
        "''Be brief.''" "''2+2?''" "''4''" "''5''"
        "[(''prompt'', PStr ''Hi''), (''prompt_id'', PStr ''0''),
          (''messages'', PList [PDict [(''content'', PStr ''Hi''), (''role'', PStr ''user'')],
                                PDict [(''content'', PStr ''Hello''), (''role'', PStr ''assistant'')]])]"
        "[PDict [(''content'', PStr ''Hi''), (''role'', PStr ''user'')],
          PDict [(''content'', PStr ''Hello''), (''role'', PStr ''assistant'')]]"
        "[(''user'', ''Hi''), (''assistant'', ''Hello'')]"]
  by simp

section \<open>The order of the stages\<close>

text \<open>
  C4. In both notebooks, run cell after cell, the dataset is loaded and mapped through the
  prompt-formatting function, then the configuration objects are built, then \<open>train()\<close> is
  called, then \<open>merge_and_unload()\<close> on the adapter model (the object that
  \<open>AutoPeftModelForCausalLM.from_pretrained\<close>, respectively \<open>get_peft_model\<close>, returned),
  and only then \<open>pipeline()\<close>: no generation before the merged model exists. For the DPO
  notebook this is the run on a table of preference pairs in the dataset's schema, on which
  the notebook's own functions do not raise.
\<close>

theorem notebooks_run_in_order:
  "stages (trace (run instruction_tuning_notebook))
     = [Data, Data, Config, Config, Config, Train, Merge, Generate]
   \<and> map self (calls_to ''merge_and_unload'' (trace (run instruction_tuning_notebook))) = [Some (Obj 22)]
   \<and> is_call_to ''AutoPeftModelForCausalLM.from_pretrained'' (trace (run instruction_tuning_notebook) ! 22)
   \<and> (preference_pairs hub \<longrightarrow>
        raised (run (dpo_notebook hub)) = None
        \<and> stages (trace (run (dpo_notebook hub)))
            = [Data, Data, Config, Config, Config, Train, Merge, Generate]
        \<and> map self (calls_to ''merge_and_unload'' (trace (run (dpo_notebook hub)))) = [Some (Obj 14)]
        \<and> is_call_to ''get_peft_model'' (trace (run (dpo_notebook hub)) ! 14))"
proof (intro conjI impI)
  show "stages (trace (run instruction_tuning_notebook))
     = [Data, Data, Config, Config, Config, Train, Merge, Generate]"
    by (simp add: instruction_tuning_log stage_of_def)
  show "map self (calls_to ''merge_and_unload'' (trace (run instruction_tuning_notebook))) = [Some (Obj 22)]"
    by (simp add: instruction_tuning_log)
  show "is_call_to ''AutoPeftModelForCausalLM.from_pretrained'' (trace (run instruction_tuning_notebook) ! 22)"
    by (simp add: instruction_tuning_log)
next
  assume "preference_pairs hub"
  then obtain d1 d2 where f: "dataset_filter keep_pair hub = Inr d1"
    and m: "dataset_map format_prompt (column_names d1) d1 = Inr d2"
    by (rule dpo_cell)
  note log = dpo_log [OF f m]
  show "raised (run (dpo_notebook hub)) = None"
    by (simp add: log)
  show "stages (trace (run (dpo_notebook hub)))
            = [Data, Data, Config, Config, Config, Train, Merge, Generate]"
    by (simp add: log stage_of_def)
  show "map self (calls_to ''merge_and_unload'' (trace (run (dpo_notebook hub)))) = [Some (Obj 14)]"
    by (simp add: log)
  show "is_call_to ''get_peft_model'' (trace (run (dpo_notebook hub)) ! 14)"
    by (simp add: log)
qed

theorem notebooks_run_in_order_witness:
  "preference_pairs sample_pairs
   \<and> raised (run (dpo_notebook sample_pairs)) = None
   \<and> stages (trace (run (dpo_notebook sample_pairs)))
        = [Data, Data, Config, Config, Config, Train, Merge, Generate]
   \<and> map self (calls_to ''merge_and_unload'' (trace (run (dpo_notebook sample_pairs)))) = [Some (Obj 14)]"
  using notebooks_run_in_order [of sample_pairs] sample_pairs_ok by simp

section \<open>What the DPO trainer is given\<close>

text \<open>
  C5. The DPO notebook constructs exactly one \<open>DPOTrainer\<close>, with \<open>ref_model=None\<close> and
  no reward model among its arguments, and the training set it passes is the table that
  \<open>map\<close> wrote from the retained pairs: its rows are, pair by pair, the dictionaries that
  \<open>format_prompt\<close> produced, and every row of it is a triple of prompt, chosen completion
  and rejected completion, each a string.
\<close>

theorem dpo_trainer_inputs:
  assumes "preference_pairs hub"
  shows "\<exists>c ds. calls_to ''DPOTrainer'' (trace (run (dpo_notebook hub))) = [c]
     \<and> map fst (kwargs c) = [''ref_model'', ''args'', ''train_dataset'', ''tokenizer'',
                              ''peft_config'', ''beta'', ''max_prompt_length'', ''max_length'']
     \<and> map_of (kwargs c) ''ref_model'' = Some (Lit PNone)
     \<and> map_of (kwargs c) ''train_dataset'' = Some (Table ds)
     \<and> list_all2 formats_to (filter retained (rows hub)) (rows ds)
     \<and> list_all is_triple (rows ds)"
proof -
  from assms obtain d1 d2 where f: "dataset_filter keep_pair hub = Inr d1"
    and r1: "rows d1 = filter retained (rows hub)"
    and m: "dataset_map format_prompt (column_names d1) d1 = Inr d2"
    and r2: "list_all2 formats_to (rows d1) (rows d2)"
    and t: "list_all is_triple (rows d2)"
    by (rule dpo_cell)
  note log = dpo_log [OF f m]
  let ?c = "\<lparr>callee = ''DPOTrainer'', self = None, args = [Obj 14],
     kwargs = [(''ref_model'', Lit PNone), (''args'', Obj 15), (''train_dataset'', Table d2),
               (''tokenizer'', Obj 6), (''peft_config'', Obj 12), (''beta'', Lit (PFloat (Finite (1 / 10)))),
               (''max_prompt_length'', Lit (PInt 512)), (''max_length'', Lit (PInt 512))]\<rparr>"
  show ?thesis
  proof (intro exI conjI)
    show "calls_to ''DPOTrainer'' (trace (run (dpo_notebook hub))) = [?c]"
      by (simp add: log)
    show "map fst (kwargs ?c) = [''ref_model'', ''args'', ''train_dataset'', ''tokenizer'',
                              ''peft_config'', ''beta'', ''max_prompt_length'', ''max_length'']"
      by simp
    show "map_of (kwargs ?c) ''ref_model'' = Some (Lit PNone)"
      by simp
    show "map_of (kwargs ?c) ''train_dataset'' = Some (Table d2)"
      by simp
    from r1 r2 show "list_all2 formats_to (filter retained (rows hub)) (rows d2)"
      by simp
    from t show "list_all is_triple (rows d2)" .
  qed
qed

theorem dpo_trainer_inputs_witness:
  "preference_pairs sample_pairs
   \<and> (\<exists>c. calls_to ''DPOTrainer'' (trace (run (dpo_notebook sample_pairs))) = [c]
        \<and> map_of (kwargs c) ''ref_model'' = Some (Lit PNone)
        \<and> map_of (kwargs c) ''train_dataset'' =
            Some (Table \<lparr>column_names = [''chosen'', ''rejected'', ''prompt''],
                   rows = [[(''chosen'', PStr ''4</s>\<newline>''), (''rejected'', PStr ''5</s>\<newline>''),
                            (''prompt'', PStr ''<|system|>\<newline></s>\<newline><|user|>\<newline>2+2? </s>\<newline><|assistant|>\<newline>'')]]\<rparr>))
   \<and> is_triple [(''chosen'', PStr ''4</s>\<newline>''), (''rejected'', PStr ''5</s>\<newline>''),
                 (''prompt'', PStr ''<|system|>\<newline></s>\<newline><|user|>\<newline>2+2? </s>\<newline><|assistant|>\<newline>'')]"
proof -
  let ?row = "[(''chosen'', PStr ''4</s>\<newline>''), (''rejected'', PStr ''5</s>\<newline>''),
               (''prompt'', PStr ''<|system|>\<newline></s>\<newline><|user|>\<newline>2+2? </s>\<newline><|assistant|>\<newline>'')]"
  let ?d1 = "sample_pairs\<lparr>rows := filter retained (rows sample_pairs)\<rparr>"
  let ?d2 = "\<lparr>column_names = [''chosen'', ''rejected'', ''prompt''], rows = [?row]\<rparr>"
  from dpo_trainer_inputs [OF sample_pairs_ok] obtain c ds
    where c: "calls_to ''DPOTrainer'' (trace (run (dpo_notebook sample_pairs))) = [c]"
      "map_of (kwargs c) ''ref_model'' = Some (Lit PNone)"
      "map_of (kwargs c) ''train_dataset'' = Some (Table ds)"
      and t: "list_all is_triple (rows ds)"
    by blast
  have f: "dataset_filter keep_pair sample_pairs = Inr ?d1"
    using sample_pairs_ok
    by (simp add: dataset_filter_def filter_rows_rated preference_pairs_def list_all_iff)
  have r: "rows ?d1 = [hd (rows sample_pairs)]"
    by (simp add: sample_pairs_def retained_def)
  have m: "dataset_map format_prompt (column_names ?d1) ?d1 = Inr ?d2"
    by (simp add: dataset_map_def r, simp add: sample_pairs_def pop_columns_def dict_merge_def
          mapped_columns_def format_prompt_def getitem_def)
  from dpo_log [OF f m] have "map_of (kwargs (hd (calls_to ''DPOTrainer'' (trace (run (dpo_notebook sample_pairs))))))
      ''train_dataset'' = Some (Table ?d2)"
    by simp
  with c have ds: "ds = ?d2" by simp
  with t have "is_triple ?row" by simp
  with c ds sample_pairs_ok show ?thesis by blast
qed

section \<open>Quantization through a configuration object\<close>

text \<open>
  C6. Each notebook constructs one \<open>BitsAndBytesConfig\<close>, with \<open>load_in_4bit=True\<close>,
  \<open>bnb_4bit_quant_type="nf4"\<close>, \<open>bnb_4bit_compute_dtype="float16"\<close> and
  \<open>bnb_4bit_use_double_quant=True\<close>, and the only thing it ever does with that object is to
  pass it as \<open>quantization_config\<close> to the call that loads the model: the notebook neither
  changes it nor computes with it.
\<close>

theorem quantization_by_config_only:
  "call_sites ''BitsAndBytesConfig'' (trace (run instruction_tuning_notebook)) = [8]
   \<and> trace (run instruction_tuning_notebook) ! 8 =
        Call \<lparr>callee = ''BitsAndBytesConfig'', self = None, args = [],
           kwargs = [(''load_in_4bit'', Lit (PBool True)),
                     (''bnb_4bit_quant_type'', Lit (PStr ''nf4'')),
                     (''bnb_4bit_compute_dtype'', Lit (PStr ''float16'')),
                     (''bnb_4bit_use_double_quant'', Lit (PBool True))]\<rparr>
   \<and> filter (mentions (Obj 8)) (trace (run instruction_tuning_notebook)) =
        [Call \<lparr>callee = ''AutoModelForCausalLM.from_pretrained'', self = None,
           args = [Lit (PStr ''TinyLlama/TinyLlama-1.1B-intermediate-step-1431k-3T'')],
           kwargs = [(''device_map'', Lit (PStr ''auto'')), (''quantization_config'', Obj 8)]\<rparr>]
   \<and> (preference_pairs hub \<longrightarrow>
        call_sites ''BitsAndBytesConfig'' (trace (run (dpo_notebook hub))) = [5]
        \<and> trace (run (dpo_notebook hub)) ! 5 =
             Call \<lparr>callee = ''BitsAndBytesConfig'', self = None, args = [],
                kwargs = [(''load_in_4bit'', Lit (PBool True)),
                          (''bnb_4bit_quant_type'', Lit (PStr ''nf4'')),
                          (''bnb_4bit_compute_dtype'', Lit (PStr ''float16'')),
                          (''bnb_4bit_use_double_quant'', Lit (PBool True))]\<rparr>
        \<and> filter (mentions (Obj 5)) (trace (run (dpo_notebook hub))) =
             [Call \<lparr>callee = ''AutoModelForCausalLM.from_pretrained'', self = None,
                args = [Lit (PStr ''TinyLlama/TinyLlama-1.1B-Chat-v1.0'')],
                kwargs = [(''device_map'', Lit (PStr ''auto'')), (''quantization_config'', Obj 5),
                          (''trust_remote_code'', Lit (PBool True))]\<rparr>])"
proof (intro conjI impI)
  show "call_sites ''BitsAndBytesConfig'' (trace (run instruction_tuning_notebook)) = [8]"
    by (simp add: instruction_tuning_log call_sites_def)
  show "trace (run instruction_tuning_notebook) ! 8 =
        Call \<lparr>callee = ''BitsAndBytesConfig'', self = None, args = [],
           kwargs = [(''load_in_4bit'', Lit (PBool True)),
                     (''bnb_4bit_quant_type'', Lit (PStr ''nf4'')),
                     (''bnb_4bit_compute_dtype'', Lit (PStr ''float16'')),
                     (''bnb_4bit_use_double_quant'', Lit (PBool True))]\<rparr>"
    by (simp add: instruction_tuning_log)
  show "filter (mentions (Obj 8)) (trace (run instruction_tuning_notebook)) =
        [Call \<lparr>callee = ''AutoModelForCausalLM.from_pretrained'', self = None,
           args = [Lit (PStr ''TinyLlama/TinyLlama-1.1B-intermediate-step-1431k-3T'')],
           kwargs = [(''device_map'', Lit (PStr ''auto'')), (''quantization_config'', Obj 8)]\<rparr>]"
    by (simp add: instruction_tuning_log)
next
  assume "preference_pairs hub"
  then obtain d1 d2 where f: "dataset_filter keep_pair hub = Inr d1"
    and m: "dataset_map format_prompt (column_names d1) d1 = Inr d2"
    by (rule dpo_cell)
  note log = dpo_log [OF f m]
  show "call_sites ''BitsAndBytesConfig'' (trace (run (dpo_notebook hub))) = [5]"
    by (simp add: log call_sites_def)
  show "trace (run (dpo_notebook hub)) ! 5 =
             Call \<lparr>callee = ''BitsAndBytesConfig'', self = None, args = [],
                kwargs = [(''load_in_4bit'', Lit (PBool True)),
                          (''bnb_4bit_quant_type'', Lit (PStr ''nf4'')),
                          (''bnb_4bit_compute_dtype'', Lit (PStr ''float16'')),
                          (''bnb_4bit_use_double_quant'', Lit (PBool True))]\<rparr>"
    by (simp add: log)
  show "filter (mentions (Obj 5)) (trace (run (dpo_notebook hub))) =
             [Call \<lparr>callee = ''AutoModelForCausalLM.from_pretrained'', self = None,
                args = [Lit (PStr ''TinyLlama/TinyLlama-1.1B-Chat-v1.0'')],
                kwargs = [(''device_map'', Lit (PStr ''auto'')), (''quantization_config'', Obj 5),
                          (''trust_remote_code'', Lit (PBool True))]\<rparr>]"
    by (simp add: log)
qed

theorem quantization_by_config_only_witness:
  "preference_pairs sample_pairs
   \<and> call_sites ''BitsAndBytesConfig'' (trace (run (dpo_notebook sample_pairs))) = [5]
   \<and> filter (mentions (Obj 5)) (trace (run (dpo_notebook sample_pairs))) =
        [Call \<lparr>callee = ''AutoModelForCausalLM.from_pretrained'', self = None,
           args = [Lit (PStr ''TinyLlama/TinyLlama-1.1B-Chat-v1.0'')],
           kwargs = [(''device_map'', Lit (PStr ''auto'')), (''quantization_config'', Obj 5),
                     (''trust_remote_code'', Lit (PBool True))]\<rparr>]"
  using quantization_by_config_only [of sample_pairs] sample_pairs_ok by simp

section \<open>The adapter merge\<close>

text \<open>
  C7, as amended. Each notebook calls \<open>merge_and_unload()\<close> exactly once, after training,
  on the model that bears the adapter: in the instruction-tuning notebook the model loaded
  back from the saved adapter weights, in the DPO notebook the PEFT model the trainer
  trained. In the instruction-tuning notebook the merged model goes straight to
  \<open>pipeline()\<close> and is not saved. In the DPO notebook the merged model is saved to
  \<open>./dpo-tinyllama-merged\<close> and is not used otherwise; generation runs on a model loaded
  from that directory.
\<close>

theorem merge_once_after_training:
  "call_sites ''train'' (trace (run instruction_tuning_notebook)) = [20]
   \<and> call_sites ''merge_and_unload'' (trace (run instruction_tuning_notebook)) = [23]
   \<and> trace (run instruction_tuning_notebook) ! 21 =
        Call \<lparr>callee = ''save_pretrained'', self = Some (Attr (Obj 19) ''model''),
           args = [Lit (PStr ''TinyLlama-1.1B-qlora'')], kwargs = []\<rparr>
   \<and> trace (run instruction_tuning_notebook) ! 22 =
        Call \<lparr>callee = ''AutoPeftModelForCausalLM.from_pretrained'', self = None,
           args = [Lit (PStr ''TinyLlama-1.1B-qlora'')],
           kwargs = [(''low_cpu_mem_usage'', Lit (PBool True)), (''device_map'', Lit (PStr ''auto''))]\<rparr>
   \<and> trace (run instruction_tuning_notebook) ! 23 =
        Call \<lparr>callee = ''merge_and_unload'', self = Some (Obj 22), args = [], kwargs = []\<rparr>
   \<and> filter (mentions (Obj 23)) (trace (run instruction_tuning_notebook)) =
        [Call \<lparr>callee = ''pipeline'', self = None, args = [],
           kwargs = [(''task'', Lit (PStr ''text-generation'')), (''model'', Obj 23), (''tokenizer'', Obj 12)]\<rparr>]
   \<and> (preference_pairs hub \<longrightarrow>
        call_sites ''train'' (trace (run (dpo_notebook hub))) = [17]
        \<and> call_sites ''merge_and_unload'' (trace (run (dpo_notebook hub))) = [27]
        \<and> trace (run (dpo_notebook hub)) ! 14 =
             Call \<lparr>callee = ''get_peft_model'', self = None, args = [Obj 13, Obj 12], kwargs = []\<rparr>
        \<and> map args (calls_to ''DPOTrainer'' (trace (run (dpo_notebook hub)))) = [[Obj 14]]
        \<and> trace (run (dpo_notebook hub)) ! 27 =
             Call \<lparr>callee = ''merge_and_unload'', self = Some (Obj 14), args = [], kwargs = []\<rparr>
        \<and> filter (mentions (Obj 27)) (trace (run (dpo_notebook hub))) =
             [Call \<lparr>callee = ''save_pretrained'', self = Some (Obj 27),
                args = [Lit (PStr ''./dpo-tinyllama-merged'')], kwargs = []\<rparr>]
        \<and> trace (run (dpo_notebook hub)) ! 30 =
             Call \<lparr>callee = ''AutoModelForCausalLM.from_pretrained'', self = None,
                args = [Lit (PStr ''./dpo-tinyllama-merged'')],
                kwargs = [(''device_map'', Lit (PStr ''auto'')), (''trust_remote_code'', Lit (PBool True))]\<rparr>
        \<and> map (\<lambda>c. map_of (kwargs c) ''model'') (calls_to ''pipeline'' (trace (run (dpo_notebook hub))))
             = [Some (Obj 30)])"
proof (intro conjI impI)
  show "call_sites ''train'' (trace (run instruction_tuning_notebook)) = [20]"
    by (simp add: instruction_tuning_log call_sites_def)
  show "call_sites ''merge_and_unload'' (trace (run instruction_tuning_notebook)) = [23]"
    by (simp add: instruction_tuning_log call_sites_def)
  show "trace (run instruction_tuning_notebook) ! 21 =
        Call \<lparr>callee = ''save_pretrained'', self = Some (Attr (Obj 19) ''model''),
           args = [Lit (PStr ''TinyLlama-1.1B-qlora'')], kwargs = []\<rparr>"
    by (simp add: instruction_tuning_log)
  show "trace (run instruction_tuning_notebook) ! 22 =
        Call \<lparr>callee = ''AutoPeftModelForCausalLM.from_pretrained'', self = None,
           args = [Lit (PStr ''TinyLlama-1.1B-qlora'')],
           kwargs = [(''low_cpu_mem_usage'', Lit (PBool True)), (''device_map'', Lit (PStr ''auto''))]\<rparr>"
    by (simp add: instruction_tuning_log)
  show "trace (run instruction_tuning_notebook) ! 23 =
        Call \<lparr>callee = ''merge_and_unload'', self = Some (Obj 22), args = [], kwargs = []\<rparr>"
    by (simp add: instruction_tuning_log)
  show "filter (mentions (Obj 23)) (trace (run instruction_tuning_notebook)) =
        [Call \<lparr>callee = ''pipeline'', self = None, args = [],
           kwargs = [(''task'', Lit (PStr ''text-generation'')), (''model'', Obj 23), (''tokenizer'', Obj 12)]\<rparr>]"
    by (simp add: instruction_tuning_log)
next
  assume "preference_pairs hub"
  then obtain d1 d2 where f: "dataset_filter keep_pair hub = Inr d1"
    and m: "dataset_map format_prompt (column_names d1) d1 = Inr d2"
    by (rule dpo_cell)
  note log = dpo_log [OF f m]
  show "call_sites ''train'' (trace (run (dpo_notebook hub))) = [17]"
    by (simp add: log call_sites_def)
  show "call_sites ''merge_and_unload'' (trace (run (dpo_notebook hub))) = [27]"
    by (simp add: log call_sites_def)
  show "trace (run (dpo_notebook hub)) ! 14 =
             Call \<lparr>callee = ''get_peft_model'', self = None, args = [Obj 13, Obj 12], kwargs = []\<rparr>"
    by (simp add: log)
  show "map args (calls_to ''DPOTrainer'' (trace (run (dpo_notebook hub)))) = [[Obj 14]]"
    by (simp add: log)
  show "trace (run (dpo_notebook hub)) ! 27 =
             Call \<lparr>callee = ''merge_and_unload'', self = Some (Obj 14), args = [], kwargs = []\<rparr>"
    by (simp add: log)
  show "filter (mentions (Obj 27)) (trace (run (dpo_notebook hub))) =
             [Call \<lparr>callee = ''save_pretrained'', self = Some (Obj 27),
                args = [Lit (PStr ''./dpo-tinyllama-merged'')], kwargs = []\<rparr>]"
    by (simp add: log)
  show "trace (run (dpo_notebook hub)) ! 30 =
             Call \<lparr>callee = ''AutoModelForCausalLM.from_pretrained'', self = None,
                args = [Lit (PStr ''./dpo-tinyllama-merged'')],
                kwargs = [(''device_map'', Lit (PStr ''auto'')), (''trust_remote_code'', Lit (PBool True))]\<rparr>"
    by (simp add: log)
  show "map (\<lambda>c. map_of (kwargs c) ''model'') (calls_to ''pipeline'' (trace (run (dpo_notebook hub))))
             = [Some (Obj 30)]"
    by (simp add: log)
qed

theorem merge_once_after_training_witness:
  "preference_pairs sample_pairs
   \<and> call_sites ''merge_and_unload'' (trace (run (dpo_notebook sample_pairs))) = [27]
   \<and> filter (mentions (Obj 27)) (trace (run (dpo_notebook sample_pairs))) =
        [Call \<lparr>callee = ''save_pretrained'', self = Some (Obj 27),
           args = [Lit (PStr ''./dpo-tinyllama-merged'')], kwargs = []\<rparr>]
   \<and> map (\<lambda>c. map_of (kwargs c) ''model'') (calls_to ''pipeline'' (trace (run (dpo_notebook sample_pairs))))
        = [Some (Obj 30)]"
  using merge_once_after_training [of sample_pairs] sample_pairs_ok by simp

text \<open>
  The claim as stated fails in the instruction-tuning notebook: its only save is that of
  the adapter, on \<open>trainer.model\<close> and before the merge; the merged model is never saved.
\<close>

theorem merged_model_saved_counterexample:
  "call_sites ''merge_and_unload'' (trace (run instruction_tuning_notebook)) = [23]
   \<and> map self (calls_to ''save_pretrained'' (trace (run instruction_tuning_notebook)))
        = [Some (Attr (Obj 19) ''model'')]
   \<and> call_sites ''save_pretrained'' (trace (run instruction_tuning_notebook)) = [21]
   \<and> calls_to ''save_model'' (trace (run instruction_tuning_notebook)) = []"
  by (simp add: instruction_tuning_log call_sites_def)

section \<open>The DPO notebook's logic reads nothing but the example\<close>

text \<open>
  C8. \<open>format_prompt\<close> and the filter predicate are functions of the example alone: they
  take no state and keep none, so two evaluations on equal examples give equal results.
  More precisely the result of \<open>format_prompt\<close> is fixed by the four fields it reads and
  that of the predicate by the three fields it reads, whatever else the example holds and in
  whatever order.
\<close>

theorem dpo_logic_reads_fields_only:
  "((\<forall>k \<in> set [''system'', ''input'', ''chosen'', ''rejected'']. map_of e1 k = map_of e2 k)
      \<longrightarrow> format_prompt e1 = format_prompt e2)
   \<and> ((\<forall>k \<in> set [''status'', ''chosen_score'', ''in_gsm8k_train'']. map_of r1 k = map_of r2 k)
      \<longrightarrow> keep_pair r1 = keep_pair r2)"
proof (intro conjI impI)
  assume a: "\<forall>k \<in> set [''system'', ''input'', ''chosen'', ''rejected'']. map_of e1 k = map_of e2 k"
  have "getitem e1 ''system'' = getitem e2 ''system''" "getitem e1 ''input'' = getitem e2 ''input''"
       "getitem e1 ''chosen'' = getitem e2 ''chosen''" "getitem e1 ''rejected'' = getitem e2 ''rejected''"
    using a by (simp_all add: getitem_def)
  then show "format_prompt e1 = format_prompt e2"
    by (simp only: format_prompt_def)
next
  assume a: "\<forall>k \<in> set [''status'', ''chosen_score'', ''in_gsm8k_train'']. map_of r1 k = map_of r2 k"
  have "getitem r1 ''status'' = getitem r2 ''status''"
       "getitem r1 ''chosen_score'' = getitem r2 ''chosen_score''"
       "getitem r1 ''in_gsm8k_train'' = getitem r2 ''in_gsm8k_train''"
    using a by (simp_all add: getitem_def)
  then show "keep_pair r1 = keep_pair r2"
    by (simp only: keep_pair_def)
qed

theorem dpo_logic_reads_fields_only_witness:
  "format_prompt [(''system'', PStr ''s''), (''input'', PStr ''q''), (''chosen'', PStr ''a''), (''rejected'', PStr ''b''), (''status'', PStr ''tie'')]
      = format_prompt [(''rejected'', PStr ''b''), (''chosen'', PStr ''a''), (''input'', PStr ''q''), (''system'', PStr ''s''), (''order'', PNone)]
   \<and> keep_pair [(''status'', PStr ''changed''), (''chosen_score'', PFloat (Finite 9)), (''in_gsm8k_train'', PBool False), (''input'', PStr ''q'')]
      = keep_pair [(''in_gsm8k_train'', PBool False), (''chosen_score'', PFloat (Finite 9)), (''status'', PStr ''changed'')]"
  using dpo_logic_reads_fields_only
    [of "[(''system'', PStr ''s''), (''input'', PStr ''q''), (''chosen'', PStr ''a''), (''rejected'', PStr ''b''), (''status'', PStr ''tie'')]"
        "[(''rejected'', PStr ''b''), (''chosen'', PStr ''a''), (''input'', PStr ''q''), (''system'', PStr ''s''), (''order'', PNone)]"
        "[(''status'', PStr ''changed''), (''chosen_score'', PFloat (Finite 9)), (''in_gsm8k_train'', PBool False), (''input'', PStr ''q'')]"
        "[(''in_gsm8k_train'', PBool False), (''chosen_score'', PFloat (Finite 9)), (''status'', PStr ''changed'')]"]
  by simp

section \<open>The columns after the map\<close>

text \<open>
  C9. On a table whose rows hold strings in the four text columns,
  \<open>map(format_prompt, remove_columns=column_names)\<close> succeeds and the result is a table;
  its rows are, row by row, the dictionaries \<open>format_prompt\<close> returned; every row has
  exactly the three columns \<open>prompt\<close>, \<open>chosen\<close> and \<open>rejected\<close>; the columns \<open>system\<close>,
  \<open>input\<close>, \<open>status\<close>, \<open>chosen_score\<close> and \<open>in_gsm8k_train\<close>, and every other column of the
  source table that is not one of the three, are absent from it.
\<close>

theorem dpo_map_columns:
  assumes "table d" and "\<forall>r \<in> set (rows d). has_texts r"
  shows "\<exists>out. dataset_map format_prompt (column_names d) d = Inr out
          \<and> table out
          \<and> list_all2 formats_to (rows d) (rows out)
          \<and> (\<forall>r \<in> set (rows out).
                distinct (map fst r)
                \<and> set (map fst r) = {''prompt'', ''chosen'', ''rejected''}
                \<and> map_of r ''system'' = None \<and> map_of r ''input'' = None \<and> map_of r ''status'' = None
                \<and> map_of r ''chosen_score'' = None \<and> map_of r ''in_gsm8k_train'' = None
                \<and> (\<forall>c \<in> set (column_names d). c \<notin> {''prompt'', ''chosen'', ''rejected''} \<longrightarrow> map_of r c = None))"
proof -
  from dataset_map_texts [OF assms] obtain out
    where m: "dataset_map format_prompt (column_names d) d = Inr out"
      and f: "list_all2 formats_to (rows d) (rows out)"
      and t: "list_all is_triple (rows out)"
      and tab: "table out"
    by blast
  have "distinct (map fst r)
                \<and> set (map fst r) = {''prompt'', ''chosen'', ''rejected''}
                \<and> map_of r ''system'' = None \<and> map_of r ''input'' = None \<and> map_of r ''status'' = None
                \<and> map_of r ''chosen_score'' = None \<and> map_of r ''in_gsm8k_train'' = None
                \<and> (\<forall>c \<in> set (column_names d). c \<notin> {''prompt'', ''chosen'', ''rejected''} \<longrightarrow> map_of r c = None)"
    if "r \<in> set (rows out)" for r
  proof -
    from t that have "is_triple r" by (simp add: list_all_iff)
    then have d: "distinct (map fst r)" and k: "set (map fst r) = {''prompt'', ''chosen'', ''rejected''}"
      by (simp_all add: is_triple_def)
    have absent: "map_of r c = None" if "c \<notin> {''prompt'', ''chosen'', ''rejected''}" for c
      using k that by (metis map_of_eq_None_iff set_map)
    from d k absent show ?thesis by simp
  qed
  with m f tab show ?thesis by blast
qed

theorem dpo_map_columns_witness:
  "table sample_pairs \<and> list_all has_texts (rows sample_pairs)
   \<and> (\<exists>out. dataset_map format_prompt (column_names sample_pairs) sample_pairs = Inr out
         \<and> list_all (\<lambda>r. set (map fst r) = {''prompt'', ''chosen'', ''rejected''}) (rows out)
         \<and> list_all (\<lambda>r. map_of r ''system'' = None \<and> map_of r ''input'' = None \<and> map_of r ''status'' = None
               \<and> map_of r ''chosen_score'' = None \<and> map_of r ''in_gsm8k_train'' = None) (rows out))"
proof -
  have t: "table sample_pairs"
    by (simp add: table_def sample_pairs_def)
  have h: "\<forall>r \<in> set (rows sample_pairs). has_texts r"
    by (simp add: sample_pairs_def has_texts_def)
  then have l: "list_all has_texts (rows sample_pairs)"
    by (simp only: list_all_iff)
  from dpo_map_columns [OF t h] obtain out
    where o: "dataset_map format_prompt (column_names sample_pairs) sample_pairs = Inr out"
      and k: "\<forall>r \<in> set (rows out).
                distinct (map fst r)
                \<and> set (map fst r) = {''prompt'', ''chosen'', ''rejected''}
                \<and> map_of r ''system'' = None \<and> map_of r ''input'' = None \<and> map_of r ''status'' = None
                \<and> map_of r ''chosen_score'' = None \<and> map_of r ''in_gsm8k_train'' = None
                \<and> (\<forall>c \<in> set (column_names sample_pairs). c \<notin> {''prompt'', ''chosen'', ''rejected''} \<longrightarrow> map_of r c = None)"
    by blast
  from k have k1: "list_all (\<lambda>r. set (map fst r) = {''prompt'', ''chosen'', ''rejected''}) (rows out)"
    by (simp add: list_all_iff)
  from k have k2: "list_all (\<lambda>r. map_of r ''system'' = None \<and> map_of r ''input'' = None \<and> map_of r ''status'' = None
               \<and> map_of r ''chosen_score'' = None \<and> map_of r ''in_gsm8k_train'' = None) (rows out)"
    by (simp add: list_all_iff)
  from t l o k1 k2 show ?thesis by blast
qed

section \<open>When the DPO prompt format fails\<close>

text \<open>
  C10, as amended. If the example holds strings at the four keys, \<open>format_prompt\<close>
  returns; the chosen and the rejected completion end with \<open>"</s>\n"\<close>, and the prompt ends
  with \<open>" </s>\n<|assistant|>\n"\<close>. If one of the four keys is absent, \<open>format_prompt\<close>
  fails; the failure is the lookup error of the first absent key, in the order \<open>system\<close>,
  \<open>input\<close>, \<open>chosen\<close>, \<open>rejected\<close> in which the function looks them up, when every key
  looked up before it holds a string.
\<close>

theorem format_prompt_outcomes:
  "(has_texts example \<longrightarrow>
      (\<exists>p c j. format_prompt example = Inr [(''prompt'', PStr p), (''chosen'', PStr c), (''rejected'', PStr j)]
         \<and> suffix '' </s>\<newline><|assistant|>\<newline>'' p \<and> suffix ''</s>\<newline>'' c \<and> suffix ''</s>\<newline>'' j))
   \<and> ((\<exists>k \<in> set [''system'', ''input'', ''chosen'', ''rejected'']. map_of partial k = None) \<longrightarrow>
      (\<exists>e. format_prompt partial = Inl e))
   \<and> (find (\<lambda>k. map_of partial k = None) [''system'', ''input'', ''chosen'', ''rejected''] = Some first
      \<and> list_all (\<lambda>k. is_str (map_of partial k))
           (takeWhile (\<lambda>k. map_of partial k \<noteq> None) [''system'', ''input'', ''chosen'', ''rejected''])
      \<longrightarrow> format_prompt partial = Inl (KeyError first))"
proof (intro conjI impI)
  assume "has_texts example"
  then obtain s i c j where "map_of example ''system'' = Some (PStr s)" "map_of example ''input'' = Some (PStr i)"
    "map_of example ''chosen'' = Some (PStr c)" "map_of example ''rejected'' = Some (PStr j)"
    by (rule has_texts_strings)
  then have "format_prompt example =
     Inr [(''prompt'', PStr (''<|system|>\<newline>'' @ s @ ''</s>\<newline>'' @ ''<|user|>\<newline>'' @ i @ '' </s>\<newline><|assistant|>\<newline>'')),
          (''chosen'', PStr (c @ ''</s>\<newline>'')),
          (''rejected'', PStr (j @ ''</s>\<newline>''))]"
    by (rule format_prompt_strings)
  moreover have "suffix '' </s>\<newline><|assistant|>\<newline>'' (''<|system|>\<newline>'' @ s @ ''</s>\<newline>'' @ ''<|user|>\<newline>'' @ i @ '' </s>\<newline><|assistant|>\<newline>'')"
    by (simp only: suffix_appendI suffix_order.refl)
  moreover have "suffix ''</s>\<newline>'' (c @ ''</s>\<newline>'')" "suffix ''</s>\<newline>'' (j @ ''</s>\<newline>'')"
    by (simp_all only: suffix_appendI suffix_order.refl)
  ultimately show "\<exists>p c j. format_prompt example = Inr [(''prompt'', PStr p), (''chosen'', PStr c), (''rejected'', PStr j)]
         \<and> suffix '' </s>\<newline><|assistant|>\<newline>'' p \<and> suffix ''</s>\<newline>'' c \<and> suffix ''</s>\<newline>'' j"
    by blast
next
  assume a: "\<exists>k \<in> set [''system'', ''input'', ''chosen'', ''rejected'']. map_of partial k = None"
  show "\<exists>e. format_prompt partial = Inl e"
  proof (cases "format_prompt partial")
    case (Inl e)
    then show ?thesis by blast
  next
    case (Inr out)
    from format_prompt_needs_keys [OF this] a show ?thesis by auto
  qed
next
  assume "find (\<lambda>k. map_of partial k = None) [''system'', ''input'', ''chosen'', ''rejected''] = Some first
      \<and> list_all (\<lambda>k. is_str (map_of partial k))
           (takeWhile (\<lambda>k. map_of partial k \<noteq> None) [''system'', ''input'', ''chosen'', ''rejected''])"
  then show "format_prompt partial = Inl (KeyError first)"
    using format_prompt_first_absent by blast
qed

theorem format_prompt_outcomes_witness:
  "has_texts [(''system'', PStr ''''), (''input'', PStr ''Hi''), (''chosen'', PStr ''Hello''), (''rejected'', PStr ''Go away'')]
   \<and> (\<exists>p c j. format_prompt [(''system'', PStr ''''), (''input'', PStr ''Hi''), (''chosen'', PStr ''Hello''), (''rejected'', PStr ''Go away'')]
            = Inr [(''prompt'', PStr p), (''chosen'', PStr c), (''rejected'', PStr j)]
         \<and> suffix '' </s>\<newline><|assistant|>\<newline>'' p \<and> suffix ''</s>\<newline>'' c \<and> suffix ''</s>\<newline>'' j)
   \<and> map_of [(''system'', PStr ''''), (''chosen'', PStr ''Hello'')] ''input'' = None
   \<and> map_of [(''system'', PStr ''''), (''chosen'', PStr ''Hello'')] ''rejected'' = None
   \<and> find (\<lambda>k. map_of [(''system'', PStr ''''), (''chosen'', PStr ''Hello'')] k = None)
        [''system'', ''input'', ''chosen'', ''rejected''] = Some ''input''
   \<and> format_prompt [(''system'', PStr ''''), (''chosen'', PStr ''Hello'')] = Inl (KeyError ''input'')"
  using format_prompt_outcomes
    [of "[(''system'', PStr ''''), (''input'', PStr ''Hi''), (''chosen'', PStr ''Hello''), (''rejected'', PStr ''Go away'')]"
        "[(''system'', PStr ''''), (''chosen'', PStr ''Hello'')]" "''input''"]
  by (simp add: has_texts_def)

text \<open>
  The claim as stated fails twice: the prompt ends with the assistant tag, not with the
  end-of-sequence token; and with \<open>input\<close> absent and \<open>system\<close> holding \<open>None\<close>, the failure
  is a type error raised before any lookup of \<open>input\<close>.
\<close>

theorem format_prompt_outcomes_counterexample:
  "format_prompt [(''system'', PStr ''''), (''input'', PStr ''Hi''), (''chosen'', PStr ''Hello''), (''rejected'', PStr ''Go away'')]
     = Inr [(''prompt'', PStr ''<|system|>\<newline></s>\<newline><|user|>\<newline>Hi </s>\<newline><|assistant|>\<newline>''),
            (''chosen'', PStr ''Hello</s>\<newline>''), (''rejected'', PStr ''Go away</s>\<newline>'')]
   \<and> \<not> suffix ''</s>\<newline>'' ''<|system|>\<newline></s>\<newline><|user|>\<newline>Hi </s>\<newline><|assistant|>\<newline>''
   \<and> map_of [(''system'', PNone), (''chosen'', PStr ''Hello''), (''rejected'', PStr ''Go away'')] ''input'' = None
   \<and> format_prompt [(''system'', PNone), (''chosen'', PStr ''Hello''), (''rejected'', PStr ''Go away'')] = Inl TypeError"
  by (simp add: format_prompt_def getitem_def suffix_to_prefix)

end
